theory Spec2Isabelle
  imports Complex_Main
begin

section \<open>Numbers, JavaScript values and vectors\<close>

text \<open>
  The water simulation computes with floating-point numbers, in GLSL on the GPU and in
  JavaScript on the CPU. The embedding computes with exact reals: rounding, overflow and
  NaN are outside the model. Where the JavaScript inspects a value that may be absent or
  non-finite (\<open>Number.isFinite\<close>, truthiness, \<open>!= null\<close>), the argument is a
  \<open>jsval\<close> or an \<open>option\<close>, so that every branch of the inspection is a branch of
  the model.
\<close>

type_synonym vec2 = "real \<times> real"
type_synonym vec3 = "real \<times> real \<times> real"

datatype jsval = Undefined | Num real | PosInf | NegInf | NaN

fun Number_isFinite :: "jsval \<Rightarrow> bool" where
  "Number_isFinite (Num r) = True"
| "Number_isFinite _ = False"

text \<open>\<open>v > 0\<close> and \<open>v !== 0\<close> on a JavaScript value; \<open>undefined\<close> and \<open>NaN\<close>
  compare false with \<open>>\<close>, and are different from 0.\<close>

fun js_gt0 :: "jsval \<Rightarrow> bool" where
  "js_gt0 (Num r) = (r > 0)"
| "js_gt0 PosInf = True"
| "js_gt0 _ = False"

fun js_ne0 :: "jsval \<Rightarrow> bool" where
  "js_ne0 (Num r) = (r \<noteq> 0)"
| "js_ne0 _ = True"

fun js_truthy :: "jsval \<Rightarrow> bool" where
  "js_truthy (Num r) = (r \<noteq> 0)"
| "js_truthy PosInf = True"
| "js_truthy NegInf = True"
| "js_truthy _ = False"

text \<open>The number held by a finite value; it is read only under \<open>Number.isFinite\<close>.\<close>

fun num_of :: "jsval \<Rightarrow> real" where
  "num_of (Num r) = r"
| "num_of _ = 0"

subsection \<open>GLSL built-ins\<close>

definition glsl_clamp :: "real \<Rightarrow> real \<Rightarrow> real \<Rightarrow> real" where
  "glsl_clamp x lo hi = min (max x lo) hi"

definition smoothstep :: "real \<Rightarrow> real \<Rightarrow> real \<Rightarrow> real" where
  "smoothstep e0 e1 x =
     (let t = glsl_clamp ((x - e0) / (e1 - e0)) 0 1 in t * t * (3 - 2 * t))"

definition mix :: "real \<Rightarrow> real \<Rightarrow> real \<Rightarrow> real" where
  "mix a b t = a * (1 - t) + b * t"

definition length2 :: "vec2 \<Rightarrow> real" where
  "length2 v = sqrt (fst v * fst v + snd v * snd v)"

definition dot2 :: "vec2 \<Rightarrow> vec2 \<Rightarrow> real" where
  "dot2 a b = fst a * fst b + snd a * snd b"

definition sub2 :: "vec2 \<Rightarrow> vec2 \<Rightarrow> vec2" where
  "sub2 a b = (fst a - fst b, snd a - snd b)"

section \<open>The height pass HEIGHT\_FS\<close>

text \<open>
  The uniforms of the height pass, as the constructor of \<open>CompWaterPBR\<close> creates them
  (\<open>hmU\<close>). The wave arrays have \<open>MAX_PW = 4\<close> and \<open>MAX_RW = 4\<close> entries.
\<close>

definition MIN_OMEGA :: real where
  "MIN_OMEGA = 0.5"

definition MAX_PW :: nat where
  "MAX_PW = 4"

definition MAX_RW :: nat where
  "MAX_RW = 4"

record uniforms =
  mousePos :: vec2
  mouseSize :: real
  viscosity :: real
  delta :: real
  bounds :: vec2
  splashStrength :: real
  baselineReturn :: real
  simTime_u :: real
  pw_dir :: "vec2 list"
  pw_k :: "real list"
  pw_omega :: "real list"
  pw_amp :: "real list"
  pw_phase :: "real list"
  rw_center :: "vec2 list"
  rw_k :: "real list"
  rw_omega :: "real list"
  rw_amp :: "real list"
  rw_decay :: "real list"
  rw_phase :: "real list"

text \<open>
  The height texture holds one texel (R = height, G = velocity) per cell, row after row.
  GPUComputationRenderer samples it with the nearest filter and clamp-to-edge wrapping, so
  \<open>texture2D(heightmap, uv + offset)\<close> at a texel centre reads the neighbouring texel, and
  the texel at the edge where there is no neighbour (the spec: neighbours are clamped to
  the buffer on edges, no wraparound).
\<close>

type_synonym heightmap = "(real \<times> real) list"

definition texel_index :: "nat \<Rightarrow> int \<Rightarrow> nat" where
  "texel_index n i = nat (max 0 (min i (int n - 1)))"

definition texture2D :: "nat \<times> nat \<Rightarrow> heightmap \<Rightarrow> int \<times> int \<Rightarrow> real \<times> real" where
  "texture2D res hm p =
     hm ! (texel_index (snd res) (snd p) * fst res + texel_index (fst res) (fst p))"

text \<open>The splash impulse of a cell at distance \<open>d\<close> from the splash position.\<close>

definition splash_impulse :: "real \<Rightarrow> real \<Rightarrow> real \<Rightarrow> real" where
  "splash_impulse d mouseSize' splashStrength' =
     (let r = d / mouseSize';
          r2 = r * r;
          g = exp (- 100 * r2)
      in (1 - 50 * r2) * g * splashStrength')"

text \<open>One round of the plane-wave loop and of the radial-wave loop, for slot \<open>i\<close>.\<close>

definition plane_wave_term :: "uniforms \<Rightarrow> vec2 \<Rightarrow> nat \<Rightarrow> real \<Rightarrow> real" where
  "plane_wave_term u local i forcing =
     (let amp = pw_amp u ! i in
      if amp \<noteq> 0 then
        (let theta = pw_k u ! i * dot2 (pw_dir u ! i) local
                       - pw_omega u ! i * simTime_u u + pw_phase u ! i
         in forcing + pw_amp u ! i * sin theta)
      else forcing)"

text \<open>
  \<open>sigma = max(1e-3, 1.0 / rw_decay[i])\<close>: for a zero decay the quotient is the IEEE
  infinity, \<open>sigma\<close> is infinite and \<open>q = r / sigma\<close> is 0.
\<close>

definition radial_wave_term :: "uniforms \<Rightarrow> vec2 \<Rightarrow> nat \<Rightarrow> real \<Rightarrow> real" where
  "radial_wave_term u local i forcing =
     (let amp = rw_amp u ! i in
      if amp \<noteq> 0 then
        (let d = sub2 local (rw_center u ! i);
             r = length2 d;
             q = (if rw_decay u ! i = 0 then 0 else r / max 0.001 (1 / (rw_decay u ! i)));
             env = exp (- q * q);
             hat = (1 - 2 * q * q) * env;
             om = max (rw_omega u ! i) 0.001;
             theta = rw_k u ! i * r - om * simTime_u u + rw_phase u ! i;
             wave = sin theta;
             f = amp * hat * wave
         in forcing + f)
      else forcing)"

definition wave_forcing :: "uniforms \<Rightarrow> vec2 \<Rightarrow> real" where
  "wave_forcing u local =
     fold (radial_wave_term u local) [0..<MAX_RW]
       (fold (plane_wave_term u local) [0..<MAX_PW] 0)"

text \<open>
  \<open>main()\<close> of the shader for the fragment of cell \<open>frag\<close>, whose
  \<open>gl_FragCoord.xy\<close> is the cell's centre \<open>frag + 0.5\<close>. The result is the
  \<open>(height, vel)\<close> written to \<open>gl_FragColor\<close>. The unused local \<open>k\<close> of the
  source is left out.
\<close>

definition HEIGHT_FS ::
  "uniforms \<Rightarrow> nat \<times> nat \<Rightarrow> heightmap \<Rightarrow> nat \<times> nat \<Rightarrow> real \<times> real" where
  "HEIGHT_FS u resolution hm frag =
     (let cell = (1 / real (fst resolution), 1 / real (snd resolution));
          uv = ((real (fst frag) + 1 / 2) * fst cell, (real (snd frag) + 1 / 2) * snd cell);
          px = int (fst frag);
          py = int (snd frag);
          h = texture2D resolution hm (px, py);
          hC = fst h;
          hL = fst (texture2D resolution hm (px - 1, py));
          hR = fst (texture2D resolution hm (px + 1, py));
          hD = fst (texture2D resolution hm (px, py - 1));
          hU = fst (texture2D resolution hm (px, py + 1));
          sump = hL + hR + hD + hU - 4 * hC;
          GRAVITY = real (fst resolution) * 3;
          accel = sump * GRAVITY;
          vel = snd h + accel * delta u;
          height = hC + vel * delta u;
          height = height + sump * viscosity u;
          local = ((fst uv - 1 / 2) * 2 * fst (bounds u), (snd uv - 1 / 2) * 2 * snd (bounds u));
          d = length2 (sub2 local (mousePos u));
          impulse = splash_impulse d (mouseSize u) (splashStrength u);
          vel = vel + impulse;
          forcing = wave_forcing u local;
          vel = vel + forcing * delta u;
          vel = glsl_clamp vel (- 20) 20;
          height = hC + vel * delta u;
          height = glsl_clamp height (- 5) 5;
          vel = vel * 0.995;
          height = hC + vel * delta u;
          height = height - height * baselineReturn u * delta u;
          fx = min (fst uv) (1 - fst uv);
          fy = min (snd uv) (1 - snd uv);
          border = smoothstep 0 0.04 (min fx fy);
          vel = vel * mix 0.99 1 border
      in (height, vel))"

section \<open>The component CompWaterPBR\<close>

text \<open>
  The state of the component: the uniforms, the simulation clock, the plane-wave list and
  the write cursors, the cached constants of the constructor, and the current height
  texture. The mesh is kept as its position and its two coordinate changes, which
  three.js derives from the mesh's transform. Fields and methods keep their names without
  the leading underscore or hash (\<open>_calcOmega\<close> is \<open>calcOmega\<close>, \<open>#seed\<close> is
  \<open>seed\<close>).
\<close>

record plane_wave =
  pl_dir :: vec2
  pl_k :: real
  pl_omega :: real
  pl_amp :: real
  pl_phase :: real

record radial_wave =
  ra_center :: vec2
  ra_k :: real
  ra_omega :: real
  ra_amp :: real
  ra_decay :: real
  ra_phase :: real

record CompWaterPBR =
  hmU :: uniforms
  simTime :: real
  pwWrite :: nat
  rwWrite :: nat
  planeWaves :: "plane_wave list"
  radialWaves :: "radial_wave list"
  simWidth :: nat
  simHeight :: nat
  invSizeX :: real
  invSizeY :: real
  normalY :: real
  displacementScale :: real
  mesh_position :: vec3
  worldToLocal :: "vec3 \<Rightarrow> vec3"
  localToWorld :: "vec3 \<Rightarrow> vec3"
  heightmap :: heightmap

text \<open>
  \<open>gpu.compute()\<close>: every cell of the next texture is the shader's result on the
  current texture; the two are swapped when all cells are done.
\<close>

definition gpu_compute :: "CompWaterPBR \<Rightarrow> heightmap" where
  "gpu_compute s =
     map (\<lambda>idx. HEIGHT_FS (hmU s) (simWidth s, simHeight s) (heightmap s)
                  (idx mod simWidth s, idx div simWidth s))
       [0..<simWidth s * simHeight s]"

definition compUpdate :: "real \<Rightarrow> CompWaterPBR \<Rightarrow> CompWaterPBR" where
  "compUpdate dt s =
     (let s = s\<lparr>hmU := (hmU s)\<lparr>delta := dt\<rparr>\<rparr>;
          s = s\<lparr>simTime := simTime s + dt\<rparr>;
          s = s\<lparr>hmU := (hmU s)\<lparr>simTime_u := simTime s\<rparr>\<rparr>;
          s = s\<lparr>heightmap := gpu_compute s\<rparr>
      in s\<lparr>hmU := (hmU s)\<lparr>mousePos := (9999, 9999), splashStrength := 0\<rparr>\<rparr>)"

definition worldToLocalXY :: "CompWaterPBR \<Rightarrow> vec3 \<Rightarrow> vec2" where
  "worldToLocalXY s worldPoint =
     (let p = worldToLocal s worldPoint in (fst p, fst (snd p)))"

datatype coords = Local | World

text \<open>\<open>splash(x, z, size, strength, coords)\<close>; a \<open>size\<close> of \<open>None\<close> is \<open>null\<close>.\<close>

definition splash ::
  "real \<Rightarrow> real \<Rightarrow> real option \<Rightarrow> real \<Rightarrow> coords \<Rightarrow> CompWaterPBR \<Rightarrow> CompWaterPBR" where
  "splash x z size' strength c s =
     (let s = (if c = Local then s\<lparr>hmU := (hmU s)\<lparr>mousePos := (x, z)\<rparr>\<rparr>
               else (let p = (x, fst (snd (mesh_position s)), z);
                         v = worldToLocalXY s p
                     in s\<lparr>hmU := (hmU s)\<lparr>mousePos := v\<rparr>\<rparr>));
          s = (case size' of
                 Some sz \<Rightarrow> s\<lparr>hmU := (hmU s)\<lparr>mouseSize := sz\<rparr>\<rparr>
               | None \<Rightarrow> s)
      in s\<lparr>hmU := (hmU s)\<lparr>splashStrength := strength\<rparr>\<rparr>)"

subsection \<open>The constructor\<close>

text \<open>
  The properties the constructor reads for the simulation; an absent optional property is
  \<open>None\<close>. The mesh is a plane rotated by \<open>rotationX\<close> about the x axis and
  moved to \<open>position\<close>; three.js computes its coordinate changes and its normal from
  that transform.
\<close>

record ICompWaterPBRProps =
  p_position :: vec3
  p_sizeX :: real
  p_sizeY :: real
  p_simW :: nat
  p_simH :: nat
  p_rotationX :: "real option"
  p_displacementScale :: real
  p_mouseSize :: "real option"
  p_viscosity :: "real option"

definition rotateX :: "real \<Rightarrow> vec3 \<Rightarrow> vec3" where
  "rotateX a p =
     (case p of (x, y, z) \<Rightarrow> (x, y * cos a - z * sin a, y * sin a + z * cos a))"

definition add3 :: "vec3 \<Rightarrow> vec3 \<Rightarrow> vec3" where
  "add3 a b = (case a of (x, y, z) \<Rightarrow> case b of (x', y', z') \<Rightarrow> (x + x', y + y', z + z'))"

definition sub3 :: "vec3 \<Rightarrow> vec3 \<Rightarrow> vec3" where
  "sub3 a b = (case a of (x, y, z) \<Rightarrow> case b of (x', y', z') \<Rightarrow> (x - x', y - y', z - z'))"

definition seed :: "nat \<Rightarrow> nat \<Rightarrow> heightmap" where
  "seed w h = replicate (w * h) (0, 0)"

definition new_CompWaterPBR :: "ICompWaterPBRProps \<Rightarrow> CompWaterPBR" where
  "new_CompWaterPBR props =
     (let rotationX = (case p_rotationX props of Some a \<Rightarrow> a | None \<Rightarrow> - pi / 2);
          mouseSize0 = (case p_mouseSize props of Some m \<Rightarrow> m | None \<Rightarrow> 10);
          viscosity0 = (case p_viscosity props of Some v \<Rightarrow> v | None \<Rightarrow> 0.01);
          sizeX = p_sizeX props;
          sizeY = p_sizeY props
      in \<lparr> hmU = \<lparr> mousePos = (9999, 9999),
                   mouseSize = mouseSize0,
                   viscosity = viscosity0,
                   delta = 1 / 60,
                   bounds = (sizeX * 0.5, sizeY * 0.5),
                   splashStrength = 0,
                   baselineReturn = 0.08,
                   simTime_u = 0,
                   pw_dir = replicate MAX_PW (1, 0),
                   pw_k = replicate MAX_PW 0,
                   pw_omega = replicate MAX_PW 0,
                   pw_amp = replicate MAX_PW 0,
                   pw_phase = replicate MAX_PW 0,
                   rw_center = replicate MAX_RW (0, 0),
                   rw_k = replicate MAX_RW 0,
                   rw_omega = replicate MAX_RW 0,
                   rw_amp = replicate MAX_RW 0,
                   rw_decay = replicate MAX_RW 0,
                   rw_phase = replicate MAX_RW 0 \<rparr>,
           simTime = 0,
           pwWrite = 0,
           rwWrite = 0,
           planeWaves = [],
           radialWaves = [],
           simWidth = p_simW props,
           simHeight = p_simH props,
           invSizeX = (if sizeX \<noteq> 0 then 1 / sizeX else 0),
           invSizeY = (if sizeY \<noteq> 0 then 1 / sizeY else 0),
           normalY = fst (snd (rotateX rotationX (0, 0, 1))),
           displacementScale = p_displacementScale props,
           mesh_position = p_position props,
           worldToLocal = (\<lambda>p. rotateX (- rotationX) (sub3 p (p_position props))),
           localToWorld = (\<lambda>p. add3 (rotateX rotationX p) (p_position props)),
           heightmap = seed (p_simW props) (p_simH props) \<rparr>)"

subsection \<open>The height query\<close>

text \<open>
  \<open>renderer.readRenderTargetPixels(target, x, y, w, h, buffer)\<close> fills the buffer with
  the RGBA values of the \<open>w \<times> h\<close> texels from \<open>(x, y)\<close>, row after row; the height
  pass writes \<open>(height, vel, 0, 1)\<close>.
\<close>

definition readRenderTargetPixels ::
  "nat \<times> nat \<Rightarrow> heightmap \<Rightarrow> nat \<Rightarrow> nat \<Rightarrow> nat \<Rightarrow> nat \<Rightarrow> real list" where
  "readRenderTargetPixels res hm x y w h =
     concat (map (\<lambda>idx. (let t = hm ! ((y + idx div w) * fst res + (x + idx mod w))
                          in [fst t, snd t, 0, 1]))
               [0..<w * h])"

text \<open>
  \<open>getHeightAtPoint\<close>. The mesh, the renderer and the render target exist once the
  constructor has run, and a real \<open>heightValue\<close> is finite, so of the early returns
  only the one for an empty grid is a branch here.
\<close>

definition getHeightAtPoint :: "CompWaterPBR \<Rightarrow> vec3 \<Rightarrow> real" where
  "getHeightAtPoint s point =
     (let width = simWidth s;
          height = simHeight s
      in if width = 0 \<or> height = 0 then fst (snd (mesh_position s))
         else
          (let heightSampleLocal = worldToLocal s point;
               lx = fst heightSampleLocal;
               ly = fst (snd heightSampleLocal);
               u = min (max (lx * invSizeX s + 0.5) 0) 1;
               v = min (max (ly * invSizeY s + 0.5) 0) 1;
               fx = u * (real width - 1);
               fy = v * (real height - 1);
               x0 = nat \<lfloor>fx\<rfloor>;
               y0 = nat \<lfloor>fy\<rfloor>;
               x1 = min (x0 + 1) (width - 1);
               y1 = min (y0 + 1) (height - 1);
               readW = (if x1 > x0 then 2 else 1);
               readH = (if y1 > y0 then 2 else 1);
               buffer = readRenderTargetPixels (width, height) (heightmap s) x0 y0 readW readH;
               stride = readW * 4;
               h00 = buffer ! 0;
               h10 = buffer ! (if readW > 1 then 4 else 0);
               h01 = buffer ! (if readH > 1 then stride else 0);
               h11 = buffer ! (if readW > 1 \<and> readH > 1 then stride + 4
                               else if readH > 1 then stride
                               else if readW > 1 then 4 else 0);
               tx = (if readW > 1 then fx - real x0 else 0);
               ty = (if readH > 1 then fy - real y0 else 0);
               hx0 = h00 + (h10 - h00) * tx;
               hx1 = h01 + (h11 - h01) * tx;
               heightValue = hx0 + (hx1 - hx0) * ty;
               baseY = fst (snd (localToWorld s (lx, ly, 0)));
               displacement = heightValue * displacementScale s
           in baseY + displacement * normalY s))"

subsection \<open>Wave sources\<close>

text \<open>\<open>k = (wavelength && wavelength > 0) ? (2 * Math.PI / wavelength) : 0\<close>; the
  quotient by an infinite wavelength is 0.\<close>

definition calc_k :: "jsval \<Rightarrow> real" where
  "calc_k wavelength =
     (if js_truthy wavelength \<and> js_gt0 wavelength
      then (case wavelength of Num w \<Rightarrow> 2 * pi / w | _ \<Rightarrow> 0)
      else 0)"

definition calcOmega :: "CompWaterPBR \<Rightarrow> real \<Rightarrow> jsval \<Rightarrow> jsval \<Rightarrow> jsval \<Rightarrow> real" where
  "calcOmega s k speed omega periodSec =
     (if Number_isFinite omega \<and> js_gt0 omega then num_of omega
      else if Number_isFinite periodSec \<and> js_gt0 periodSec then 2 * pi / num_of periodSec
      else if Number_isFinite speed \<and> js_ne0 speed then \<bar>k * num_of speed\<bar>
      else (let g_sim = real (simWidth s) * 3.0;
                om = (if k > 0 then sqrt (max 0 (g_sim * k)) else 0)
            in max om MIN_OMEGA))"

definition calcDispersion :: "CompWaterPBR \<Rightarrow> jsval \<Rightarrow> jsval \<Rightarrow> jsval \<Rightarrow> real \<times> real" where
  "calcDispersion s wavelength speed omega =
     (let k = calc_k wavelength;
          om = calcOmega s k speed omega Undefined
      in (k, om))"

text \<open>\<open>Vector2.normalize\<close> of three.js: \<open>divideScalar(length() || 1)\<close>.\<close>

definition normalize2 :: "vec2 \<Rightarrow> vec2" where
  "normalize2 v =
     (let l = length2 v; l' = (if l = 0 then 1 else l) in (fst v / l', snd v / l'))"

definition addPWToUniforms :: "CompWaterPBR \<Rightarrow> CompWaterPBR" where
  "addPWToUniforms s =
     (let n = min (length (planeWaves s)) 4;
          u = fold (\<lambda>i u. (let w = planeWaves s ! i in
                      u\<lparr> pw_dir := (pw_dir u)[i := pl_dir w],
                         pw_k := (pw_k u)[i := pl_k w],
                         pw_omega := (pw_omega u)[i := pl_omega w],
                         pw_amp := (pw_amp u)[i := pl_amp w],
                         pw_phase := (pw_phase u)[i := pl_phase w] \<rparr>))
                [0..<n] (hmU s);
          u = fold (\<lambda>i u. u\<lparr> pw_amp := (pw_amp u)[i := 0] \<rparr>) [n..<4] u
      in s\<lparr>hmU := u\<rparr>)"

definition addRWToUniforms :: "CompWaterPBR \<Rightarrow> CompWaterPBR" where
  "addRWToUniforms s =
     (let n = min (length (radialWaves s)) 4;
          u = fold (\<lambda>i u. (let w = radialWaves s ! i in
                      u\<lparr> rw_center := (rw_center u)[i := ra_center w],
                         rw_k := (rw_k u)[i := ra_k w],
                         rw_omega := (rw_omega u)[i := ra_omega w],
                         rw_amp := (rw_amp u)[i := ra_amp w],
                         rw_decay := (rw_decay u)[i := ra_decay w],
                         rw_phase := (rw_phase u)[i := ra_phase w] \<rparr>))
                [0..<n] (hmU s);
          u = fold (\<lambda>i u. u\<lparr> rw_amp := (rw_amp u)[i := 0] \<rparr>) [n..<4] u
      in s\<lparr>hmU := u\<rparr>)"

text \<open>
  \<open>addPlaneWave({dir, wavelength, amplitude, speed, phase, omega})\<close>. The amplitude is
  a number; \<open>phase || 0\<close> is 0 for an absent phase.
\<close>

record plane_wave_args =
  a_dir :: vec2
  a_wavelength :: jsval
  a_amplitude :: real
  a_speed :: jsval
  a_phase :: "real option"
  a_omega :: jsval

definition addPlaneWave :: "plane_wave_args \<Rightarrow> CompWaterPBR \<Rightarrow> CompWaterPBR" where
  "addPlaneWave a s =
     (if length (planeWaves s) < MAX_PW then
        (let d = normalize2 (a_dir a);
             (k, om) = calcDispersion s (a_wavelength a) (a_speed a) (a_omega a);
             s = s\<lparr>planeWaves := planeWaves s @
                    [\<lparr> pl_dir = d, pl_k = k, pl_omega = om, pl_amp = a_amplitude a,
                       pl_phase = (case a_phase a of Some p \<Rightarrow> p | None \<Rightarrow> 0) \<rparr>]\<rparr>
         in addPWToUniforms s)
      else s)"

text \<open>\<open>addRadialWave(props)\<close>, with the properties of \<open>IRadialWaveProps\<close>; the
  amplitude and the decay are numbers.\<close>

record IRadialWaveProps =
  r_center :: vec2
  r_wavelength :: jsval
  r_amplitude :: real
  r_decay :: real
  r_phase :: "real option"
  r_speed :: jsval
  r_omega :: jsval
  r_periodSec :: jsval

definition addRadialWave :: "IRadialWaveProps \<Rightarrow> CompWaterPBR \<Rightarrow> CompWaterPBR" where
  "addRadialWave props s =
     (let u = hmU s;
          k = calc_k (r_wavelength props);
          om = calcOmega s k (r_speed props) (r_omega props) (r_periodSec props);
          i = rwWrite s mod MAX_RW;
          s = s\<lparr>rwWrite := rwWrite s + 1\<rparr>;
          props = (if k = 0 \<or> \<not> Number_isFinite (Num om) \<or> om \<le> 0
                   then props\<lparr>r_amplitude := 0\<rparr> else props);
          u = u\<lparr> rw_center := (rw_center u)[i := r_center props] \<rparr>;
          u = u\<lparr> rw_k := (rw_k u)[i := k] \<rparr>;
          u = u\<lparr> rw_omega := (rw_omega u)[i := om] \<rparr>;
          u = u\<lparr> rw_amp := (rw_amp u)[i := r_amplitude props] \<rparr>;
          u = u\<lparr> rw_decay := (rw_decay u)[i := r_decay props] \<rparr>;
          u = u\<lparr> rw_phase := (rw_phase u)[i := (case r_phase props of Some p \<Rightarrow> p | None \<Rightarrow> 0)] \<rparr>
      in s\<lparr>hmU := u\<rparr>)"

definition disableRadialWave :: "int \<Rightarrow> CompWaterPBR \<Rightarrow> CompWaterPBR" where
  "disableRadialWave i s =
     (if i \<ge> 0 \<and> i < int MAX_RW
      then s\<lparr>hmU := (hmU s)\<lparr> rw_amp := (rw_amp (hmU s))[nat i := 0] \<rparr>\<rparr>
      else s)"

definition clearWaves :: "CompWaterPBR \<Rightarrow> CompWaterPBR" where
  "clearWaves s =
     (let s = s\<lparr>planeWaves := []\<rparr>;
          s = s\<lparr>radialWaves := []\<rparr>;
          s = addPWToUniforms s
      in addRWToUniforms s)"

section \<open>The component CompBuoyancy\<close>

subsection \<open>Vector and quaternion operations of three.js\<close>

type_synonym quat = "real \<times> real \<times> real \<times> real"

definition vx :: "vec3 \<Rightarrow> real" where
  "vx p = fst p"

definition vy :: "vec3 \<Rightarrow> real" where
  "vy p = fst (snd p)"

definition vz :: "vec3 \<Rightarrow> real" where
  "vz p = snd (snd p)"

definition multiplyScalar :: "vec3 \<Rightarrow> real \<Rightarrow> vec3" where
  "multiplyScalar v c = (vx v * c, vy v * c, vz v * c)"

definition divideScalar :: "vec3 \<Rightarrow> real \<Rightarrow> vec3" where
  "divideScalar v c = multiplyScalar v (1 / c)"

definition cross3 :: "vec3 \<Rightarrow> vec3 \<Rightarrow> vec3" where
  "cross3 a b =
     (vy a * vz b - vz a * vy b, vz a * vx b - vx a * vz b, vx a * vy b - vy a * vx b)"

definition lengthSq3 :: "vec3 \<Rightarrow> real" where
  "lengthSq3 v = vx v * vx v + vy v * vy v + vz v * vz v"

definition length3 :: "vec3 \<Rightarrow> real" where
  "length3 v = sqrt (lengthSq3 v)"

text \<open>\<open>MathUtils.clamp(value, min, max)\<close> is \<open>Math.max(min, Math.min(max, value))\<close>.\<close>

definition MathUtils_clamp :: "real \<Rightarrow> real \<Rightarrow> real \<Rightarrow> real" where
  "MathUtils_clamp v lo hi = max lo (min hi v)"

text \<open>\<open>Vector3.clampLength(min, max)\<close> is
  \<open>divideScalar(length || 1).multiplyScalar(clamp(length, min, max))\<close>.\<close>

definition clampLength :: "vec3 \<Rightarrow> real \<Rightarrow> real \<Rightarrow> vec3" where
  "clampLength v lo hi =
     (let l = length3 v
      in multiplyScalar (divideScalar v (if l = 0 then 1 else l)) (MathUtils_clamp l lo hi))"

definition setFromAxisAngle :: "vec3 \<Rightarrow> real \<Rightarrow> quat" where
  "setFromAxisAngle axis angle =
     (let halfAngle = angle / 2; s = sin halfAngle
      in (vx axis * s, vy axis * s, vz axis * s, cos halfAngle))"

definition quat_multiply :: "quat \<Rightarrow> quat \<Rightarrow> quat" where
  "quat_multiply a b =
     (case a of (qax, qay, qaz, qaw) \<Rightarrow> case b of (qbx, qby, qbz, qbw) \<Rightarrow>
        (qax * qbw + qaw * qbx + qay * qbz - qaz * qby,
         qay * qbw + qaw * qby + qaz * qbx - qax * qbz,
         qaz * qbw + qaw * qbz + qax * qby - qay * qbx,
         qaw * qbw - qax * qbx - qay * qby - qaz * qbz))"

definition quat_normalize :: "quat \<Rightarrow> quat" where
  "quat_normalize q =
     (case q of (x, y, z, w) \<Rightarrow>
        (let l = sqrt (x * x + y * y + z * z + w * w)
         in if l = 0 then (0, 0, 0, 1)
            else (x * (1 / l), y * (1 / l), z * (1 / l), w * (1 / l))))"

subsection \<open>The body\<close>

text \<open>
  The state of the component, with the position and the orientation of the object it
  moves. The object's world matrix, which three.js computes in
  \<open>updateMatrixWorld\<close>, is an argument of the update, as the map it applies to a
  point; \<open>getWorldPosition\<close> is the image of the origin.
\<close>

record CompBuoyancy =
  density :: real
  volume :: real
  dragCoefficient :: real
  angularDragCoefficient :: real
  gravity :: vec3
  buoyancyForce :: vec3
  dragForce :: vec3
  velocity :: vec3
  angularVelocity :: vec3
  probes :: "vec3 list"
  obj_position :: vec3
  obj_quaternion :: quat

record ICompBuoyancyProps =
  b_probes :: "vec3 list"
  b_density :: "real option"
  b_volume :: "real option"
  b_dragCoefficient :: "real option"
  b_angularDragCoefficient :: "real option"
  b_gravity :: "vec3 option"

text \<open>\<open>p.density || 0.5\<close>: an absent or zero property takes the default.\<close>

definition or_default :: "real option \<Rightarrow> real \<Rightarrow> real" where
  "or_default v d = (case v of Some x \<Rightarrow> (if x = 0 then d else x) | None \<Rightarrow> d)"

definition new_CompBuoyancy :: "ICompBuoyancyProps \<Rightarrow> vec3 \<Rightarrow> quat \<Rightarrow> CompBuoyancy" where
  "new_CompBuoyancy p pos q =
     \<lparr> density = or_default (b_density p) 0.5,
       volume = or_default (b_volume p) 1,
       dragCoefficient = or_default (b_dragCoefficient p) 0.75,
       angularDragCoefficient = or_default (b_angularDragCoefficient p) 0.75,
       gravity = (case b_gravity p of Some g \<Rightarrow> g | None \<Rightarrow> (0, - 9.81, 0)),
       buoyancyForce = (0, 0, 0),
       dragForce = (0, 0, 0),
       velocity = (0, 0, 0),
       angularVelocity = (0, 0, 0),
       probes = b_probes p,
       obj_position = pos,
       obj_quaternion = q \<rparr>"

text \<open>
  One round of the probe loop. The accumulator is \<open>(accumulatedHeight, validCount,
  totalBuoyancy, _torqueAccum)\<close>; a \<open>continue\<close> returns it as it stands.
\<close>

definition probe_step ::
  "(vec3 \<Rightarrow> vec3) \<Rightarrow> CompWaterPBR \<Rightarrow> CompBuoyancy \<Rightarrow> real \<Rightarrow> vec3 \<Rightarrow> vec3 \<Rightarrow>
   real \<times> nat \<times> real \<times> vec3 \<Rightarrow> real \<times> nat \<times> real \<times> vec3" where
  "probe_step matrixWorld water b perProbeVolume objectWorld probe acc =
     (case acc of (accumulatedHeight, validCount, totalBuoyancy, torqueAccum) \<Rightarrow>
        (let probeWorld = matrixWorld probe;
             waterHeight = getHeightAtPoint water probeWorld
         in if \<not> Number_isFinite (Num waterHeight) then acc
            else
             (let accumulatedHeight = accumulatedHeight + waterHeight;
                  validCount = validCount + 1;
                  depth = waterHeight - vy probeWorld
              in if depth \<le> 0 then (accumulatedHeight, validCount, totalBuoyancy, torqueAccum)
                 else
                  (let clampedDepth = min (max depth 0) perProbeVolume;
                       buoyancyForceY = clampedDepth * volume b * 9.81;
                       totalBuoyancy = totalBuoyancy + buoyancyForceY;
                       forceVec = (0, buoyancyForceY, 0);
                       leverArm = sub3 probeWorld objectWorld;
                       torqueTemp = cross3 leverArm forceVec;
                       torqueAccum = add3 torqueAccum torqueTemp
                   in (accumulatedHeight, validCount, totalBuoyancy, torqueAccum)))))"

definition probe_loop ::
  "(vec3 \<Rightarrow> vec3) \<Rightarrow> CompWaterPBR \<Rightarrow> CompBuoyancy \<Rightarrow> real \<times> nat \<times> real \<times> vec3" where
  "probe_loop matrixWorld water b =
     (let objectWorld = matrixWorld (0, 0, 0);
          probeCount = length (probes b);
          perProbeVolume = max (volume b / real probeCount) 0.001
      in fold (probe_step matrixWorld water b perProbeVolume objectWorld) (probes b)
           (0, 0, 0, (0, 0, 0)))"

definition applyForces :: "real \<Rightarrow> real \<Rightarrow> vec3 \<Rightarrow> real \<Rightarrow> CompBuoyancy \<Rightarrow> CompBuoyancy" where
  "applyForces avgWaterHeight buoyancyForceY torque dt b =
     (let position = obj_position b;
          mass = max (density b * volume b) 0.001;
          displacement = avgWaterHeight - vy position;
          clampedDisplacement = min (max displacement 0) (volume b);
          springForce = (if buoyancyForceY > 0 then buoyancyForceY
                         else clampedDisplacement * volume b * 9.81);
          damping = dragCoefficient b * vy (velocity b);
          gravityForce = multiplyScalar (gravity b) mass;
          b = b\<lparr>dragForce := (0, - damping, 0)\<rparr>;
          netForceY = springForce - damping + vy gravityForce;
          accelerationY = netForceY / mass;
          b = b\<lparr>velocity := (vx (velocity b), vy (velocity b) + accelerationY * dt, vz (velocity b))\<rparr>;
          b = b\<lparr>velocity := (vx (velocity b), MathUtils_clamp (vy (velocity b)) (- 20) 20, vz (velocity b))\<rparr>;
          b = b\<lparr>obj_position := (vx position, vy position + vy (velocity b) * dt, vz position)\<rparr>;
          inertia = max (volume b) 0.001;
          b = b\<lparr>angularVelocity := add3 (angularVelocity b) (multiplyScalar torque (dt / inertia))\<rparr>;
          angularDamping = max 0 (1 - angularDragCoefficient b * dt);
          b = b\<lparr>angularVelocity := multiplyScalar (angularVelocity b) angularDamping\<rparr>;
          b = b\<lparr>angularVelocity := clampLength (angularVelocity b) 0 (pi * 4)\<rparr>;
          angularSpeed = length3 (angularVelocity b)
      in if angularSpeed > 0.00001 then
           (let angularAxis = multiplyScalar (angularVelocity b) (1 / angularSpeed);
                angle = angularSpeed * dt;
                deltaQuat = setFromAxisAngle angularAxis angle
            in b\<lparr>obj_quaternion := quat_normalize (quat_multiply (obj_quaternion b) deltaQuat)\<rparr>)
         else b)"

text \<open>
  \<open>CompBuoyancy.compUpdate\<close>, on the body and the water it floats on. The splash at
  the end uses the object's world position read before the forces moved it.
\<close>

definition CompBuoyancy_compUpdate ::
  "(vec3 \<Rightarrow> vec3) \<Rightarrow> real \<Rightarrow> CompBuoyancy \<times> CompWaterPBR \<Rightarrow> CompBuoyancy \<times> CompWaterPBR" where
  "CompBuoyancy_compUpdate matrixWorld dt bw =
     (case bw of (b, water) \<Rightarrow>
        if probes b = [] then (b, water)
        else
         (let objectWorld = matrixWorld (0, 0, 0);
              (accumulatedHeight, validCount, totalBuoyancy, torqueAccum) =
                 probe_loop matrixWorld water b
          in if validCount = 0 then (b\<lparr>buoyancyForce := (0, 0, 0)\<rparr>, water)
             else
              (let avgWaterHeight = accumulatedHeight / real validCount;
                   b = b\<lparr>buoyancyForce := (0, totalBuoyancy, 0)\<rparr>;
                   b = applyForces avgWaterHeight totalBuoyancy torqueAccum dt b
               in if length3 (velocity b) \<le> 0 then (b, water)
                  else
                   (let splashPos = (vx objectWorld, avgWaterHeight, vz objectWorld)
                    in (b, splash (vx splashPos) (vz splashPos) (Some 2)
                              (lengthSq3 (velocity b) * 10) World water)))))"

section \<open>The plane-wave path of GPGPUWaterPBR\<close>

text \<open>
  The JavaScript class \<open>GPGPUWaterPBR\<close> carries the same shader and the same
  \<open>_calcOmega\<close> as the component. Its \<open>addRadialWave\<close> is the component's but for
  the defaults of absent arguments and the slot index it returns, and its \<open>update\<close> is
  \<open>compUpdate\<close> but for a demonstration splash at the pointer it may issue first. Its
  \<open>addPlaneWave\<close> differs: it has no capacity check, and it takes the frequency from
  its own \<open>_calcDispersion\<close>, where an \<open>omega\<close> or \<open>speed\<close> of type number is used
  whatever its value. The frequency it stores is therefore a \<open>jsval\<close>.
\<close>

fun typeof_number :: "jsval \<Rightarrow> bool" where
  "typeof_number Undefined = False"
| "typeof_number _ = True"

text \<open>The product \<open>k * speed\<close> of a finite \<open>k\<close> and a JavaScript number.\<close>

fun js_times :: "real \<Rightarrow> jsval \<Rightarrow> jsval" where
  "js_times k (Num r) = Num (k * r)"
| "js_times k PosInf = (if k > 0 then PosInf else if k < 0 then NegInf else NaN)"
| "js_times k NegInf = (if k > 0 then NegInf else if k < 0 then PosInf else NaN)"
| "js_times k v = NaN"

record gp_wave =
  gw_dir :: vec2
  gw_k :: real
  gw_omega :: jsval
  gw_amp :: real
  gw_phase :: real

record gp_uniforms =
  gp_dir :: "vec2 list"
  gp_k :: "real list"
  gp_omega :: "jsval list"
  gp_amp :: "real list"
  gp_phase :: "real list"

record GPGPUWaterPBR =
  gp_width :: nat
  gp_planeWaves :: "gp_wave list"
  gp_u :: gp_uniforms

definition new_GPGPUWaterPBR :: "nat \<Rightarrow> GPGPUWaterPBR" where
  "new_GPGPUWaterPBR simW =
     \<lparr> gp_width = simW,
       gp_planeWaves = [],
       gp_u = \<lparr> gp_dir = replicate 4 (1, 0), gp_k = replicate 4 0,
                gp_omega = replicate 4 (Num 0), gp_amp = replicate 4 0,
                gp_phase = replicate 4 0 \<rparr> \<rparr>"

definition GPGPU_calcDispersion :: "GPGPUWaterPBR \<Rightarrow> jsval \<Rightarrow> jsval \<Rightarrow> jsval \<Rightarrow> real \<times> jsval" where
  "GPGPU_calcDispersion s wavelength speed omega =
     (let k = calc_k wavelength;
          g_sim = real (gp_width s) * 3.0;
          om = (if typeof_number omega then omega
                else if typeof_number speed then js_times k speed
                else Num (sqrt (max 0 (g_sim * k))))
      in (k, om))"

definition GPGPU_addPWToUniforms :: "GPGPUWaterPBR \<Rightarrow> GPGPUWaterPBR" where
  "GPGPU_addPWToUniforms s =
     (let n = min (length (gp_planeWaves s)) 4;
          u = fold (\<lambda>i u. (let w = gp_planeWaves s ! i in
                      u\<lparr> gp_dir := (gp_dir u)[i := gw_dir w],
                         gp_k := (gp_k u)[i := gw_k w],
                         gp_omega := (gp_omega u)[i := gw_omega w],
                         gp_amp := (gp_amp u)[i := gw_amp w],
                         gp_phase := (gp_phase u)[i := gw_phase w] \<rparr>))
                [0..<n] (gp_u s);
          u = fold (\<lambda>i u. u\<lparr> gp_amp := (gp_amp u)[i := 0] \<rparr>) [n..<4] u
      in s\<lparr>gp_u := u\<rparr>)"

text \<open>
  \<open>addPlaneWave({dir, wavelength = 10, amplitude, phase, speed, omega})\<close>: an absent
  wavelength is 10; the direction, the amplitude and the phase are given. The result is
  the new state and the identifier returned, the index of the wave in the list.
\<close>

record gp_plane_args =
  ga_dir :: vec2
  ga_wavelength :: jsval
  ga_amplitude :: real
  ga_phase :: real
  ga_speed :: jsval
  ga_omega :: jsval

definition GPGPU_addPlaneWave :: "gp_plane_args \<Rightarrow> GPGPUWaterPBR \<Rightarrow> GPGPUWaterPBR \<times> nat" where
  "GPGPU_addPlaneWave a s =
     (let wavelength = (case ga_wavelength a of Undefined \<Rightarrow> Num 10 | w \<Rightarrow> w);
          d = normalize2 (ga_dir a);
          (k, om) = GPGPU_calcDispersion s wavelength (ga_speed a) (ga_omega a);
          s = s\<lparr>gp_planeWaves := gp_planeWaves s @
                 [\<lparr> gw_dir = d, gw_k = k, gw_omega = om, gw_amp = ga_amplitude a,
                    gw_phase = ga_phase a \<rparr>]\<rparr>;
          s = GPGPU_addPWToUniforms s
      in (s, length (gp_planeWaves s) - 1))"

section \<open>Specification-level notions\<close>

text \<open>
  A field at rest: every cell's height and velocity is 0, no plane or radial slot has a
  nonzero amplitude, and no splash is pending.
\<close>

definition at_rest :: "CompWaterPBR \<Rightarrow> bool" where
  "at_rest s \<longleftrightarrow>
     heightmap s = seed (simWidth s) (simHeight s) \<and>
     (\<forall>i<MAX_PW. pw_amp (hmU s) ! i = 0) \<and>
     (\<forall>i<MAX_RW. rw_amp (hmU s) ! i = 0) \<and>
     splashStrength (hmU s) = 0"




text \<open>A radial slot of the uniforms, and the entry an accepted radial wave leaves there.\<close>

definition radial_slot :: "CompWaterPBR \<Rightarrow> nat \<Rightarrow> vec2 \<times> real \<times> real \<times> real \<times> real \<times> real" where
  "radial_slot s i =
     (rw_center (hmU s) ! i, rw_k (hmU s) ! i, rw_omega (hmU s) ! i, rw_amp (hmU s) ! i,
      rw_decay (hmU s) ! i, rw_phase (hmU s) ! i)"

definition radial_wf :: "CompWaterPBR \<Rightarrow> bool" where
  "radial_wf s \<longleftrightarrow>
     length (rw_center (hmU s)) = MAX_RW \<and> length (rw_k (hmU s)) = MAX_RW \<and>
     length (rw_omega (hmU s)) = MAX_RW \<and> length (rw_amp (hmU s)) = MAX_RW \<and>
     length (rw_decay (hmU s)) = MAX_RW \<and> length (rw_phase (hmU s)) = MAX_RW"

text \<open>
  The splash impulse depends on the distance \<open>d\<close> from the splash position only, so
  its integral over a disc about that position is the integral of
  \<open>2\<pi> d * splash_impulse d\<close> over the radius. \<open>splash_primitive\<close> is an
  antiderivative of that integrand, so the integral over the disc of radius \<open>X\<close> is
  \<open>splash_primitive X - splash_primitive 0\<close>.
\<close>

definition splash_primitive :: "real \<Rightarrow> real \<Rightarrow> real \<Rightarrow> real" where
  "splash_primitive mouseSize' strength d =
     2 * pi * strength * mouseSize'\<^sup>2 *
       (exp (- 100 * (d / mouseSize')\<^sup>2) * ((d / mouseSize')\<^sup>2 / 4 - 1 / 400))"

subsection \<open>Example inputs\<close>

text \<open>An 8 by 8 grid on a 20 by 20 plane at the origin, with the defaults of the
  constructor, and a plane wave and a radial wave of a given amplitude.\<close>

definition example_props :: ICompWaterPBRProps where
  "example_props =
     \<lparr> p_position = (0, 0, 0), p_sizeX = 20, p_sizeY = 20, p_simW = 8, p_simH = 8,
       p_rotationX = None, p_displacementScale = 0.35, p_mouseSize = None,
       p_viscosity = None \<rparr>"

definition example_plane :: "jsval \<Rightarrow> real \<Rightarrow> plane_wave_args" where
  "example_plane wavelength amplitude =
     \<lparr> a_dir = (1, 0), a_wavelength = wavelength, a_amplitude = amplitude,
       a_speed = Num 2, a_phase = None, a_omega = Undefined \<rparr>"

definition example_radial :: "jsval \<Rightarrow> real \<Rightarrow> IRadialWaveProps" where
  "example_radial wavelength amplitude =
     \<lparr> r_center = (0, 0), r_wavelength = wavelength, r_amplitude = amplitude,
       r_decay = 0.08, r_phase = None, r_speed = Num 1, r_omega = Undefined,
       r_periodSec = Undefined \<rparr>"

text \<open>A body with four probes placed symmetrically one unit below the rest level of
  the water, not rotated, at the origin.\<close>

definition example_body :: CompBuoyancy where
  "example_body =
     new_CompBuoyancy
       \<lparr> b_probes = [(1, - 1, 1), (- 1, - 1, 1), (1, - 1, - 1), (- 1, - 1, - 1)],
         b_density = None, b_volume = None, b_dragCoefficient = None,
         b_angularDragCoefficient = None, b_gravity = None \<rparr>
       (0, 0, 0) (0, 0, 0, 1)"

text \<open>The example grid with the height 1 stored at node (0, 0).\<close>

definition example_bump :: CompWaterPBR where
  "example_bump = (new_CompWaterPBR example_props)\<lparr>heightmap := (seed 8 8)[0 := (1, 0)]\<rparr>"

text \<open>What \<open>addRadialWave\<close> stores for a wave: its wavenumber and frequency, and its
  amplitude unless the wave is gated off.\<close>

definition radial_entry ::
  "CompWaterPBR \<Rightarrow> IRadialWaveProps \<Rightarrow> vec2 \<times> real \<times> real \<times> real \<times> real \<times> real" where
  "radial_entry s props =
     (let k = calc_k (r_wavelength props);
          om = calcOmega s k (r_speed props) (r_omega props) (r_periodSec props)
      in (r_center props, k, om,
          (if k = 0 \<or> om \<le> 0 then 0 else r_amplitude props),
          r_decay props,
          (case r_phase props of Some p \<Rightarrow> p | None \<Rightarrow> 0)))"

text \<open>The example component after four plane waves of amplitudes 1 to 4 were added.\<close>

definition example_full :: CompWaterPBR where
  "example_full =
     fold addPlaneWave
       [example_plane (Num 12) 1, example_plane (Num 12) 2, example_plane (Num 12) 3,
        example_plane (Num 12) 4]
       (new_CompWaterPBR example_props)"

text \<open>A plane wave for \<open>GPGPUWaterPBR\<close> with a given explicit omega and amplitude.\<close>

definition example_gp_plane :: "jsval \<Rightarrow> real \<Rightarrow> gp_plane_args" where
  "example_gp_plane omega amplitude =
     \<lparr> ga_dir = (1, 0), ga_wavelength = Num 10, ga_amplitude = amplitude, ga_phase = 0,
       ga_speed = Undefined, ga_omega = omega \<rparr>"

text \<open>A \<open>GPGPUWaterPBR\<close> of width 128 after four plane waves of amplitudes 1 to 4.\<close>

definition example_gp_full :: GPGPUWaterPBR where
  "example_gp_full =
     fold (\<lambda>a s. fst (GPGPU_addPlaneWave a s))
       [example_gp_plane Undefined 1, example_gp_plane Undefined 2,
        example_gp_plane Undefined 3, example_gp_plane Undefined 4]
       (new_GPGPUWaterPBR 128)"

section \<open>Auxiliary facts\<close>

lemma upt_0_4: "[0..<4] = [0, 1, 2, 3::nat]"
  by (simp add: upt_rec numeral_eq_Suc)

lemma wave_forcing_inactive:
  assumes "\<forall>i<MAX_PW. pw_amp u ! i = 0" and "\<forall>i<MAX_RW. rw_amp u ! i = 0"
  shows "wave_forcing u local = 0"
  using assms
  by (simp add: wave_forcing_def MAX_PW_def MAX_RW_def upt_0_4 plane_wave_term_def
      radial_wave_term_def)

lemma glsl_clamp_range: "lo \<le> hi \<Longrightarrow> lo \<le> glsl_clamp x lo hi \<and> glsl_clamp x lo hi \<le> hi"
  by (simp add: glsl_clamp_def)

lemma cubic_unit:
  fixes t :: real
  assumes "0 \<le> t" "t \<le> 1"
  shows "0 \<le> t * t * (3 - 2 * t)" "t * t * (3 - 2 * t) \<le> 1"
proof -
  show "0 \<le> t * t * (3 - 2 * t)" using assms by simp
  have "1 - t * t * (3 - 2 * t) = (1 - t) * (1 - t) * (2 * t + 1)"
    by (simp add: algebra_simps)
  moreover have "0 \<le> (1 - t) * (1 - t) * (2 * t + 1)" using assms by simp
  ultimately show "t * t * (3 - 2 * t) \<le> 1" by linarith
qed

lemma smoothstep_range: "0 \<le> smoothstep a b x \<and> smoothstep a b x \<le> 1"
  unfolding smoothstep_def Let_def
  using cubic_unit[of "glsl_clamp ((x - a) / (b - a)) 0 1"]
    glsl_clamp_range[of 0 1 "(x - a) / (b - a)"]
  by simp

lemma mix_range:
  assumes "0 \<le> t" "t \<le> 1"
  shows "0.99 \<le> mix 0.99 1 t \<and> mix 0.99 1 t \<le> 1"
proof -
  have "mix 0.99 1 t = 0.99 + 0.01 * t" by (simp add: mix_def field_simps)
  then show ?thesis using assms by simp
qed

text \<open>The velocity a cell stores after the pass is clamped to 20 and then only damped.\<close>

lemma HEIGHT_FS_vel_bound: "\<bar>snd (HEIGHT_FS u res hm frag)\<bar> \<le> 20"
proof -
  have "\<exists>c b. snd (HEIGHT_FS u res hm frag) =
          glsl_clamp c (- 20) 20 * 0.995 * mix 0.99 1 (smoothstep 0 0.04 b)"
    unfolding HEIGHT_FS_def Let_def snd_conv by (intro exI) (rule refl)
  then obtain c b where eq: "snd (HEIGHT_FS u res hm frag) =
      glsl_clamp c (- 20) 20 * 0.995 * mix 0.99 1 (smoothstep 0 0.04 b)"
    by blast
  let ?m = "mix 0.99 1 (smoothstep 0 0.04 b)"
  have m: "0.99 \<le> ?m \<and> ?m \<le> 1" using mix_range smoothstep_range by blast
  have c: "\<bar>glsl_clamp c (- 20) 20\<bar> \<le> 20"
    using glsl_clamp_range[of "- 20" 20 c] by linarith
  have "\<bar>glsl_clamp c (- 20) 20 * 0.995 * ?m\<bar> = \<bar>glsl_clamp c (- 20) 20\<bar> * 0.995 * ?m"
    using m by (simp add: abs_mult)
  also have "\<dots> \<le> 20 * 0.995 * 1"
    using c m by (intro mult_mono) auto
  finally show ?thesis using eq by simp
qed

lemma splash_impulse_zero: "splash_impulse d m 0 = 0"
  by (simp add: splash_impulse_def Let_def)

lemma texel_index_less: "0 < n \<Longrightarrow> texel_index n i < n"
  by (auto simp: texel_index_def)

lemma cell_index_less:
  fixes a b W H :: nat
  assumes "a < H" "b < W"
  shows "a * W + b < W * H"
proof -
  have "a * W + b < a * W + W" using assms by simp
  also have "\<dots> = Suc a * W" by simp
  also have "\<dots> \<le> H * W" using assms by (intro mult_le_mono1) simp
  finally show ?thesis by (simp add: mult.commute)
qed

lemma texture2D_replicate:
  assumes "0 < W" "0 < H"
  shows "texture2D (W, H) (replicate (W * H) c) p = c"
  unfolding texture2D_def
  using cell_index_less[OF texel_index_less[OF assms(2)] texel_index_less[OF assms(1)]]
  by simp

lemma HEIGHT_FS_rest:
  assumes "0 < W" "0 < H"
    and "\<forall>i<MAX_PW. pw_amp u ! i = 0" "\<forall>i<MAX_RW. rw_amp u ! i = 0"
    and "splashStrength u = 0"
  shows "HEIGHT_FS u (W, H) (seed W H) frag = (0, 0)"
proof -
  have w: "wave_forcing u l = 0" for l
    using assms(3,4) by (rule wave_forcing_inactive)
  show ?thesis
    unfolding HEIGHT_FS_def Let_def seed_def
    by (simp add: texture2D_replicate[OF assms(1,2)] w assms(5) splash_impulse_zero
        glsl_clamp_def)
qed

lemma gpu_compute_nth:
  assumes "i < simWidth s * simHeight s"
  shows "gpu_compute s ! i =
    HEIGHT_FS (hmU s) (simWidth s, simHeight s) (heightmap s) (i mod simWidth s, i div simWidth s)"
  unfolding gpu_compute_def using assms
  by (simp only: nth_map length_upt nth_upt diff_zero add_0)

lemma length_gpu_compute: "length (gpu_compute s) = simWidth s * simHeight s"
  unfolding gpu_compute_def by (simp only: length_map length_upt diff_zero)

lemma gpu_compute_rest:
  assumes "heightmap s = seed (simWidth s) (simHeight s)"
    and "\<forall>i<MAX_PW. pw_amp (hmU s) ! i = 0" "\<forall>i<MAX_RW. rw_amp (hmU s) ! i = 0"
    and "splashStrength (hmU s) = 0"
  shows "gpu_compute s = seed (simWidth s) (simHeight s)"
proof (rule nth_equalityI)
  show "length (gpu_compute s) = length (seed (simWidth s) (simHeight s))"
    by (simp only: length_gpu_compute seed_def length_replicate)
next
  fix i assume "i < length (gpu_compute s)"
  then have i: "i < simWidth s * simHeight s" by (simp only: length_gpu_compute)
  have pos: "0 < simWidth s" "0 < simHeight s"
    using i by (cases "simWidth s = 0"; cases "simHeight s = 0"; simp)+
  have "gpu_compute s ! i = HEIGHT_FS (hmU s) (simWidth s, simHeight s)
          (seed (simWidth s) (simHeight s)) (i mod simWidth s, i div simWidth s)"
    using gpu_compute_nth[OF i] assms(1) by (simp only:)
  also have "\<dots> = (0, 0)" using HEIGHT_FS_rest[OF pos assms(2,3,4)] .
  finally show "gpu_compute s ! i = seed (simWidth s) (simHeight s) ! i"
    using i by (simp only: seed_def nth_replicate)
qed

text \<open>What \<open>compUpdate\<close> leaves in each field.\<close>

lemma compUpdate_heightmap:
  "heightmap (compUpdate dt s) =
     gpu_compute (s\<lparr>simTime := simTime s + dt,
                    hmU := (hmU s)\<lparr>delta := dt, simTime_u := simTime s + dt\<rparr>\<rparr>)"
  by (simp add: compUpdate_def Let_def)

lemma compUpdate_fields:
  "simWidth (compUpdate dt s) = simWidth s"
  "simHeight (compUpdate dt s) = simHeight s"
  "simTime (compUpdate dt s) = simTime s + dt"
  "hmU (compUpdate dt s) =
     (hmU s)\<lparr>delta := dt, simTime_u := simTime s + dt, mousePos := (9999, 9999),
              splashStrength := 0\<rparr>"
  by (simp_all add: compUpdate_def Let_def)

lemma compUpdate_rest:
  assumes "at_rest s"
  shows "at_rest (compUpdate dt s)"
proof -
  let ?s' = "s\<lparr>simTime := simTime s + dt,
               hmU := (hmU s)\<lparr>delta := dt, simTime_u := simTime s + dt\<rparr>\<rparr>"
  have "gpu_compute ?s' = seed (simWidth ?s') (simHeight ?s')"
    by (rule gpu_compute_rest) (use assms in \<open>simp_all add: at_rest_def\<close>)
  then have "heightmap (compUpdate dt s) = seed (simWidth s) (simHeight s)"
    by (simp add: compUpdate_heightmap)
  then show ?thesis using assms by (simp add: at_rest_def compUpdate_fields)
qed

lemma fold_compUpdate_rest: "at_rest s \<Longrightarrow> at_rest (fold compUpdate dts s)"
  by (induction dts arbitrary: s) (simp_all add: compUpdate_rest)

lemma fold_compUpdate_size:
  "simWidth (fold compUpdate dts s) = simWidth s \<and> simHeight (fold compUpdate dts s) = simHeight s"
  by (induction dts arbitrary: s) (simp_all add: compUpdate_fields)

lemma fold_compUpdate_mouseSize:
  "mouseSize (hmU (fold compUpdate dts s)) = mouseSize (hmU s)"
  by (induction dts arbitrary: s) (simp_all add: compUpdate_fields)

lemma at_rest_new: "at_rest (new_CompWaterPBR props)"
  by (simp add: at_rest_def new_CompWaterPBR_def Let_def)

lemma example_fields:
  "simWidth (new_CompWaterPBR example_props) = 8"
  "simHeight (new_CompWaterPBR example_props) = 8"
  "heightmap (new_CompWaterPBR example_props) = seed 8 8"
  "simTime (new_CompWaterPBR example_props) = 0"
  "mouseSize (hmU (new_CompWaterPBR example_props)) = 10"
  by (simp_all add: new_CompWaterPBR_def example_props_def Let_def)

lemma splash_fields:
  "simWidth (splash x z sz st c s) = simWidth s"
  "simHeight (splash x z sz st c s) = simHeight s"
  "heightmap (splash x z sz st c s) = heightmap s"
  "simTime (splash x z sz st c s) = simTime s"
  by (simp_all add: splash_def Let_def split: option.splits)

section \<open>The simulation step\<close>

text \<open>
  Claim C1: for every \<open>dt \<ge> 0\<close> and every starting grid, after one step every cell's
  stored velocity lies in \<open>[-20, 20]\<close> and every cell's stored height in \<open>[-5, 5]\<close>.

  The velocity half holds (\<open>HEIGHT_FS_vel_bound\<close>). The height half does not: the
  shader clamps \<open>height\<close> to \<open>[-5, 5]\<close> and in the next statement but one assigns
  \<open>height = hC + vel * delta\<close> again, so the clamped value is never stored. On a new 8 by 8
  component, a splash of strength 100 at the centre of cell (4, 4) followed by a step of
  half a second stores the height 9.552 in that cell (index 36).
\<close>

theorem height_clamp_overwritten:
  "heightmap (compUpdate (1 / 2)
      (splash 1.25 1.25 (Some 5) 100 Local (new_CompWaterPBR example_props))) ! 36
   = (9.552, 19.9)"
proof -
  let ?s = "splash 1.25 1.25 (Some 5) 100 Local (new_CompWaterPBR example_props)"
  let ?s' = "?s\<lparr>simTime := simTime ?s + 1 / 2,
               hmU := (hmU ?s)\<lparr>delta := 1 / 2, simTime_u := simTime ?s + 1 / 2\<rparr>\<rparr>"
  have i: "36 < simWidth ?s' * simHeight ?s'"
    by (simp add: splash_fields example_fields)
  have w: "wave_forcing (hmU ?s') l = 0" for l
    by (rule wave_forcing_inactive)
      (simp_all add: splash_def new_CompWaterPBR_def Let_def)
  have "gpu_compute ?s' ! 36 = (9.552, 19.9)"
    unfolding gpu_compute_nth[OF i]
    unfolding HEIGHT_FS_def Let_def w
    by (simp add: splash_fields example_fields seed_def texture2D_def texel_index_def
        splash_def new_CompWaterPBR_def example_props_def Let_def
        splash_impulse_def length2_def sub2_def glsl_clamp_def smoothstep_def mix_def)
  then show ?thesis by (simp only: compUpdate_heightmap)
qed

text \<open>
  Claim C2: a negative or non-finite \<open>stepDelta\<close> is rejected and the step is a no-op
  (height buffer, velocity buffer and clock unchanged).

  \<open>compUpdate\<close> has no check of \<open>dt\<close>. A step of \<open>-1\<close> on a new component moves the
  clock from 0 to \<open>-1\<close>.
\<close>

theorem negative_delta_moves_clock:
  "simTime (compUpdate (- 1) (new_CompWaterPBR example_props))
     \<noteq> simTime (new_CompWaterPBR example_props)"
  by (simp add: compUpdate_fields example_fields)

text \<open>
  Claim C2, amended: every \<open>stepDelta\<close>, a negative one included, is applied as it is:
  the clock and the \<open>simTime\<close> uniform become \<open>simTime + dt\<close>, the \<open>delta\<close> uniform
  becomes \<open>dt\<close>, and the new texture is the height pass run with these uniforms on the
  old one.
\<close>

theorem compUpdate_applies_every_delta:
  "simTime (compUpdate dt s) = simTime s + dt \<and>
   delta (hmU (compUpdate dt s)) = dt \<and>
   simTime_u (hmU (compUpdate dt s)) = simTime s + dt \<and>
   heightmap (compUpdate dt s) =
     gpu_compute (s\<lparr>simTime := simTime s + dt,
                    hmU := (hmU s)\<lparr>delta := dt, simTime_u := simTime s + dt\<rparr>\<rparr>)"
  by (simp add: compUpdate_fields compUpdate_heightmap)

text \<open>
  Claim C3: a splash is one-shot. After the step that consumes a
  \<open>splash(x, z, size, strength)\<close> call, the splash position is the sentinel
  \<open>(9999, 9999)\<close> and the splash strength is 0, so in the step that follows, whatever
  its \<open>dt2\<close>, the splash impulse of the shader is 0 at every distance \<open>d\<close> from the
  splash position, that is at every cell. The splash radius is taken nonzero: the shader
  divides by it.
\<close>

theorem splash_one_shot:
  assumes "mouseSize (hmU (splash x z size' strength c s)) \<noteq> 0"
  shows "mousePos (hmU (compUpdate dt (splash x z size' strength c s))) = (9999, 9999) \<and>
         splashStrength (hmU (compUpdate dt (splash x z size' strength c s))) = 0 \<and>
         (\<forall>dt2 d. splash_impulse d
            (mouseSize ((hmU (compUpdate dt (splash x z size' strength c s)))
               \<lparr>delta := dt2,
                simTime_u := simTime (compUpdate dt (splash x z size' strength c s)) + dt2\<rparr>))
            (splashStrength ((hmU (compUpdate dt (splash x z size' strength c s)))
               \<lparr>delta := dt2,
                simTime_u := simTime (compUpdate dt (splash x z size' strength c s)) + dt2\<rparr>))
            = 0)"
  by (simp add: compUpdate_fields splash_impulse_zero)

theorem splash_one_shot_witness:
  "mouseSize (hmU (splash 0 0 (Some 5) 100 World (new_CompWaterPBR example_props))) \<noteq> 0 \<and>
   mousePos (hmU (compUpdate (1 / 60)
      (splash 0 0 (Some 5) 100 World (new_CompWaterPBR example_props)))) = (9999, 9999) \<and>
   splashStrength (hmU (compUpdate (1 / 60)
      (splash 0 0 (Some 5) 100 World (new_CompWaterPBR example_props)))) = 0"
proof -
  have m: "mouseSize (hmU (splash 0 0 (Some 5) 100 World (new_CompWaterPBR example_props))) \<noteq> 0"
    by (simp add: splash_def Let_def)
  show ?thesis
    using m splash_one_shot[OF m, of "1 / 60"] by simp
qed

text \<open>
  Claim C9: the all-zero state is a fixed point of the step. A field at rest (every
  height and velocity 0, no active wave source, no pending splash) is mapped to itself by
  one step with any \<open>dt\<close>, is at rest again, and so is unchanged after any sequence
  \<open>dts\<close> of steps. The splash radius is taken nonzero: the shader divides by it.
\<close>

theorem zero_state_fixed_point:
  assumes "at_rest s" and "mouseSize (hmU s) \<noteq> 0"
  shows "heightmap (compUpdate dt s) = heightmap s \<and>
         at_rest (compUpdate dt s) \<and>
         heightmap (fold compUpdate dts s) = heightmap s"
proof -
  have h: "heightmap s = seed (simWidth s) (simHeight s)"
    using assms(1) by (simp add: at_rest_def)
  have "at_rest (fold compUpdate dts s)" using assms(1) by (rule fold_compUpdate_rest)
  then have "heightmap (fold compUpdate dts s) = seed (simWidth s) (simHeight s)"
    by (simp add: at_rest_def fold_compUpdate_size)
  moreover have "at_rest (compUpdate dt s)" using assms(1) by (rule compUpdate_rest)
  moreover from this have "heightmap (compUpdate dt s) = seed (simWidth s) (simHeight s)"
    by (simp add: at_rest_def compUpdate_fields)
  ultimately show ?thesis using h by simp
qed

text \<open>Scenario A of the specification: sixty steps of 1/60 s on a new 8 by 8 grid.\<close>

theorem zero_state_fixed_point_witness:
  "at_rest (new_CompWaterPBR example_props) \<and>
   mouseSize (hmU (new_CompWaterPBR example_props)) \<noteq> 0 \<and>
   heightmap (fold compUpdate (replicate 60 (1 / 60)) (new_CompWaterPBR example_props)) =
     seed 8 8"
proof -
  have a: "at_rest (new_CompWaterPBR example_props)" by (rule at_rest_new)
  have m: "mouseSize (hmU (new_CompWaterPBR example_props)) \<noteq> 0"
    by (simp add: example_fields)
  show ?thesis
    using a m zero_state_fixed_point[OF a m, of "1 / 60" "replicate 60 (1 / 60)"]
    by (simp add: example_fields)
qed

section \<open>The floating body\<close>

lemma lengthSq3_nonneg: "0 \<le> lengthSq3 v"
  by (simp add: lengthSq3_def)

lemma length3_multiplyScalar: "length3 (multiplyScalar v c) = \<bar>c\<bar> * length3 v"
proof -
  have "lengthSq3 (multiplyScalar v c) = c\<^sup>2 * lengthSq3 v"
    by (simp add: lengthSq3_def multiplyScalar_def vx_def vy_def vz_def power2_eq_square
        algebra_simps)
  then show ?thesis by (simp add: length3_def real_sqrt_mult)
qed

lemma clampLength_bound:
  assumes "0 \<le> hi"
  shows "length3 (clampLength v 0 hi) \<le> hi"
proof (cases "length3 v = 0")
  case True
  then have "MathUtils_clamp (length3 v) 0 hi = 0"
    using assms by (simp add: MathUtils_clamp_def)
  then show ?thesis
    using assms True by (simp add: clampLength_def Let_def length3_multiplyScalar)
next
  case False
  have l: "0 < length3 v"
    using False lengthSq3_nonneg[of v] by (simp add: length3_def)
  have c: "0 \<le> MathUtils_clamp (length3 v) 0 hi" "MathUtils_clamp (length3 v) 0 hi \<le> hi"
    using assms by (simp_all add: MathUtils_clamp_def)
  have "length3 (clampLength v 0 hi) = MathUtils_clamp (length3 v) 0 hi"
    using l c(1) False
    by (simp add: clampLength_def Let_def length3_multiplyScalar divideScalar_def)
  then show ?thesis using c(2) by simp
qed

lemma MathUtils_clamp_bound: "\<bar>MathUtils_clamp c (- 20) 20\<bar> \<le> 20"
  by (simp add: MathUtils_clamp_def)

lemma applyForces_velocity: "\<bar>vy (velocity (applyForces a f t dt b))\<bar> \<le> 20"
proof -
  have "vy (velocity (applyForces a f t dt b)) =
      MathUtils_clamp (vy (velocity b) +
        ((if f > 0 then f else min (max (a - vy (obj_position b)) 0) (volume b) * volume b * 9.81)
          - dragCoefficient b * vy (velocity b)
          + vy (multiplyScalar (gravity b) (max (density b * volume b) 0.001)))
         / max (density b * volume b) 0.001 * dt) (- 20) 20"
    by (simp add: applyForces_def Let_def vy_def)
  then show ?thesis using MathUtils_clamp_bound by simp
qed

lemma applyForces_angular: "length3 (angularVelocity (applyForces a f t dt b)) \<le> 4 * pi"
proof -
  have "angularVelocity (applyForces a f t dt b) =
      clampLength (multiplyScalar (add3 (angularVelocity b)
          (multiplyScalar t (dt / max (volume b) 0.001)))
        (max 0 (1 - angularDragCoefficient b * dt))) 0 (pi * 4)"
    by (simp add: applyForces_def Let_def)
  then show ?thesis
    using clampLength_bound[of "pi * 4"] by (simp add: mult.commute)
qed

lemma probe_step_count:
  "fst (snd (probe_step mw w b ppv ow probe acc)) = Suc (fst (snd acc))"
proof -
  obtain h n t q where acc: "acc = (h, n, t, q)" by (cases acc) auto
  show ?thesis unfolding acc by (simp add: probe_step_def Let_def)
qed

lemma fold_probe_step_count:
  "fst (snd (fold (probe_step mw w b ppv ow) ps acc)) = fst (snd acc) + length ps"
  by (induction ps arbitrary: acc) (simp_all add: probe_step_count)

lemma probe_loop_validCount: "fst (snd (probe_loop mw w b)) = length (probes b)"
  by (simp add: probe_loop_def Let_def fold_probe_step_count)

text \<open>
  Claim C10: after every \<open>CompBuoyancy.compUpdate\<close> that applies forces (the body has
  probes and at least one of them returned a finite water height, so \<open>validCount\<close> is
  not 0), the vertical velocity of the body lies in \<open>[-20, 20]\<close> and the magnitude of
  its angular velocity is at most \<open>4\<pi>\<close>.
\<close>

theorem buoyancy_velocity_bounds:
  assumes "probes b \<noteq> []" and "fst (snd (probe_loop matrixWorld water b)) \<noteq> 0"
  shows "\<bar>vy (velocity (fst (CompBuoyancy_compUpdate matrixWorld dt (b, water))))\<bar> \<le> 20 \<and>
         length3 (angularVelocity (fst (CompBuoyancy_compUpdate matrixWorld dt (b, water))))
           \<le> 4 * pi"
proof -
  obtain h n t q where pl: "probe_loop matrixWorld water b = (h, n, t, q)"
    by (cases "probe_loop matrixWorld water b") auto
  have n: "n \<noteq> 0" using assms(2) pl by simp
  have "fst (CompBuoyancy_compUpdate matrixWorld dt (b, water)) =
          applyForces (h / real n) t q dt (b\<lparr>buoyancyForce := (0, t, 0)\<rparr>)"
    using assms(1) n by (simp add: CompBuoyancy_compUpdate_def pl Let_def)
  then show ?thesis using applyForces_velocity applyForces_angular by simp
qed

theorem buoyancy_velocity_bounds_witness:
  "probes example_body \<noteq> [] \<and>
   fst (snd (probe_loop (\<lambda>p. p) (new_CompWaterPBR example_props) example_body)) \<noteq> 0 \<and>
   \<bar>vy (velocity (fst (CompBuoyancy_compUpdate (\<lambda>p. p) (1 / 60)
        (example_body, new_CompWaterPBR example_props))))\<bar> \<le> 20 \<and>
   length3 (angularVelocity (fst (CompBuoyancy_compUpdate (\<lambda>p. p) (1 / 60)
        (example_body, new_CompWaterPBR example_props)))) \<le> 4 * pi"
proof -
  have p: "probes example_body \<noteq> []"
    by (simp add: example_body_def new_CompBuoyancy_def)
  have v: "fst (snd (probe_loop (\<lambda>p. p) (new_CompWaterPBR example_props) example_body)) \<noteq> 0"
    using p by (simp add: probe_loop_validCount)
  show ?thesis
    using p v buoyancy_velocity_bounds[OF p v, of "1 / 60"] by simp
qed

section \<open>The height query\<close>

lemma readRenderTargetPixels_first:
  assumes "0 < w" "0 < h"
  shows "readRenderTargetPixels res hm x y w h ! 0 = fst (hm ! (y * fst res + x))"
proof -
  have "0 < w * h" using assms by simp
  then have "[0..<w * h] = 0 # [1..<w * h]" by (simp add: upt_conv_Cons)
  then show ?thesis
    using assms by (simp add: readRenderTargetPixels_def Let_def)
qed

lemma node_coordinate:
  fixes l inv :: real
  assumes "1 < W" "i < W" "l * inv + 1 / 2 = real i / (real W - 1)"
  shows "min (max (l * inv + 0.5) 0) 1 * (real W - 1) = real i"
proof -
  have W: "0 < real W - 1" using assms(1) by simp
  have "real i \<le> real W - 1" using assms(2) by linarith
  then have "real i / (real W - 1) \<le> 1" using W by (simp add: field_simps)
  moreover have "0 \<le> real i / (real W - 1)" using W by simp
  ultimately have "min (max (l * inv + 0.5) 0) 1 = real i / (real W - 1)"
    using assms(3) by simp
  then show ?thesis using W by simp
qed

lemma getHeightAtPoint_node:
  assumes "1 < simWidth s" "1 < simHeight s" "i < simWidth s" "j < simHeight s"
    and "fst (worldToLocal s p) * invSizeX s + 1 / 2 = real i / (real (simWidth s) - 1)"
    and "fst (snd (worldToLocal s p)) * invSizeY s + 1 / 2 = real j / (real (simHeight s) - 1)"
  shows "getHeightAtPoint s p =
           fst (snd (localToWorld s (fst (worldToLocal s p), fst (snd (worldToLocal s p)), 0)))
           + fst (heightmap s ! (j * simWidth s + i)) * displacementScale s * normalY s"
proof -
  have fx: "min (max (fst (worldToLocal s p) * invSizeX s + 0.5) 0) 1 * (real (simWidth s) - 1)
      = real i"
    using node_coordinate[OF assms(1,3,5)] .
  have fy: "min (max (fst (snd (worldToLocal s p)) * invSizeY s + 0.5) 0) 1
      * (real (simHeight s) - 1) = real j"
    using node_coordinate[OF assms(2,4,6)] .
  have nz: "\<not> (simWidth s = 0 \<or> simHeight s = 0)" using assms(1,2) by simp
  show ?thesis
    unfolding getHeightAtPoint_def Let_def fx fy
    by (simp add: nz readRenderTargetPixels_first)
qed

text \<open>
  Claim C7, amended: at the world position of a grid node \<open>(i, j)\<close> (a point whose
  normalised plane coordinates are \<open>i / (W - 1)\<close> and \<open>j / (H - 1)\<close>) the bilinear
  interpolation is exact, and the query returns the world height of the resting plane at
  that point plus the node's stored height scaled by \<open>displacementScale\<close> and projected
  on the plane's normal: \<open>baseY + height * displacementScale * normalY\<close>.
\<close>

theorem height_query_at_node:
  assumes "1 < simWidth s" "1 < simHeight s" "i < simWidth s" "j < simHeight s"
    and "fst (worldToLocal s p) * invSizeX s + 1 / 2 = real i / (real (simWidth s) - 1)"
    and "fst (snd (worldToLocal s p)) * invSizeY s + 1 / 2 = real j / (real (simHeight s) - 1)"
  shows "getHeightAtPoint s p =
           fst (snd (localToWorld s (fst (worldToLocal s p), fst (snd (worldToLocal s p)), 0)))
           + fst (heightmap s ! (j * simWidth s + i)) * displacementScale s * normalY s"
  using assms by (rule getHeightAtPoint_node)

lemma example_bump_fields:
  "simWidth example_bump = 8" "simHeight example_bump = 8"
  "invSizeX example_bump = 1 / 20" "invSizeY example_bump = 1 / 20"
  "worldToLocal example_bump (- 10, 0, 10) = (- 10, - 10, 0)"
  "localToWorld example_bump (- 10, - 10, 0) = (- 10, 0, 10)"
  "normalY example_bump = 1" "displacementScale example_bump = 0.35"
  "heightmap example_bump ! 0 = (1, 0)"
  by (simp_all add: example_bump_def new_CompWaterPBR_def example_props_def Let_def
      rotateX_def sub3_def add3_def seed_def)

lemma example_bump_query: "getHeightAtPoint example_bump (- 10, 0, 10) = 0.35"
  using getHeightAtPoint_node[of example_bump 0 0 "(- 10, 0, 10)"]
  by (simp add: example_bump_fields)

text \<open>
  Claim C7: at a grid node's world position the height query returns the node's raw stored
  height. On the example grid with height 1 stored at node (0, 0), whose world position is
  \<open>(-10, 0, 10)\<close>, the query returns 0.35, the stored height times the displacement
  scale.
\<close>

theorem height_query_not_raw_height:
  "getHeightAtPoint example_bump (- 10, 0, 10) \<noteq> fst (heightmap example_bump ! 0)"
  by (simp add: example_bump_query example_bump_fields)

theorem height_query_at_node_witness:
  "1 < simWidth example_bump \<and> 1 < simHeight example_bump \<and>
   fst (worldToLocal example_bump (- 10, 0, 10)) * invSizeX example_bump + 1 / 2 =
     real (0::nat) / (real (simWidth example_bump) - 1) \<and>
   fst (snd (worldToLocal example_bump (- 10, 0, 10))) * invSizeY example_bump + 1 / 2 =
     real (0::nat) / (real (simHeight example_bump) - 1) \<and>
   getHeightAtPoint example_bump (- 10, 0, 10) = 0 + 1 * 0.35 * 1"
  using height_query_at_node[of example_bump 0 0 "(- 10, 0, 10)"]
  by (simp add: example_bump_fields)

section \<open>Wave sources\<close>

lemma addPWToUniforms_fields:
  "planeWaves (addPWToUniforms s) = planeWaves s"
  "simWidth (addPWToUniforms s) = simWidth s"
  by (simp_all add: addPWToUniforms_def Let_def)

lemma addPlaneWave_full:
  assumes "MAX_PW \<le> length (planeWaves s)"
  shows "addPlaneWave a s = s"
  using assms by (simp add: addPlaneWave_def)

lemma addPlaneWave_length:
  "length (planeWaves (addPlaneWave a s)) =
     (if length (planeWaves s) < MAX_PW then Suc (length (planeWaves s))
      else length (planeWaves s))"
  by (simp add: addPlaneWave_def addPWToUniforms_fields Let_def split: prod.splits)

lemma addRadialWave_fields:
  "rwWrite (addRadialWave p s) = rwWrite s + 1"
  "simWidth (addRadialWave p s) = simWidth s"
  "planeWaves (addRadialWave p s) = planeWaves s"
  by (simp_all add: addRadialWave_def Let_def)

lemma addRadialWave_wf: "radial_wf s \<Longrightarrow> radial_wf (addRadialWave p s)"
  by (simp add: addRadialWave_def Let_def radial_wf_def)

lemma addRadialWave_slot:
  assumes "radial_wf s"
  shows "radial_slot (addRadialWave p s) (rwWrite s mod MAX_RW) = radial_entry s p"
proof -
  have "rwWrite s mod MAX_RW < MAX_RW" by (simp add: MAX_RW_def)
  then show ?thesis
    using assms
    by (simp add: addRadialWave_def Let_def radial_wf_def radial_slot_def radial_entry_def)
qed

lemma addRadialWave_other:
  assumes "i \<noteq> rwWrite s mod MAX_RW"
  shows "radial_slot (addRadialWave p s) i = radial_slot s i"
  using assms by (simp add: addRadialWave_def Let_def radial_slot_def)

lemma radial_entry_cong: "simWidth s = simWidth s' \<Longrightarrow> radial_entry s p = radial_entry s' p"
  by (simp add: radial_entry_def calcOmega_def Let_def)

lemma fold_addRadialWave_fields:
  "rwWrite (fold addRadialWave ps s) = rwWrite s + length ps"
  "simWidth (fold addRadialWave ps s) = simWidth s"
  by (induction ps arbitrary: s) (simp_all add: addRadialWave_fields)

lemma fold_addRadialWave_wf: "radial_wf s \<Longrightarrow> radial_wf (fold addRadialWave ps s)"
  by (induction ps arbitrary: s) (simp_all add: addRadialWave_wf)

lemma ring_index_distinct:
  fixes w j n :: nat
  assumes "j < n" "n - j < 4"
  shows "(w + j) mod 4 \<noteq> (w + n) mod 4"
proof
  assume "(w + j) mod 4 = (w + n) mod 4"
  then have "(w + n) mod 4 = (w + j) mod 4" by simp
  moreover have "w + j \<le> w + n" using assms(1) by simp
  ultimately have "4 dvd (w + n) - (w + j)" by (simp only: mod_eq_dvd_iff_nat)
  then have "4 dvd n - j" by simp
  moreover have "0 < n - j" using assms(1) by simp
  ultimately have "4 \<le> n - j" by (rule dvd_imp_le)
  then show False using assms(2) by simp
qed

lemma radial_ring:
  assumes "radial_wf s"
  shows "\<forall>j<length ps. length ps - j \<le> MAX_RW \<longrightarrow>
           radial_slot (fold addRadialWave ps s) ((rwWrite s + j) mod MAX_RW)
             = radial_entry s (ps ! j)"
proof (induction ps rule: rev_induct)
  case Nil
  show ?case by simp
next
  case (snoc p ps)
  let ?t = "fold addRadialWave ps s"
  have t: "radial_wf ?t" "rwWrite ?t = rwWrite s + length ps" "simWidth ?t = simWidth s"
    using assms by (simp_all add: fold_addRadialWave_wf fold_addRadialWave_fields)
  show ?case
  proof (intro allI impI)
    fix j assume j: "j < length (ps @ [p])" and r: "length (ps @ [p]) - j \<le> MAX_RW"
    show "radial_slot (fold addRadialWave (ps @ [p]) s) ((rwWrite s + j) mod MAX_RW)
            = radial_entry s ((ps @ [p]) ! j)"
    proof (cases "j = length ps")
      case True
      have "radial_slot (addRadialWave p ?t) (rwWrite ?t mod MAX_RW) = radial_entry ?t p"
        using t(1) by (rule addRadialWave_slot)
      then show ?thesis
        using True t(2) radial_entry_cong[OF t(3), of p] by simp
    next
      case False
      then have lt: "j < length ps" using j by simp
      have near: "length ps - j < 4" using r lt by (simp add: MAX_RW_def)
      have ne: "(rwWrite s + j) mod MAX_RW \<noteq> rwWrite ?t mod MAX_RW"
        using ring_index_distinct[OF lt near, of "rwWrite s"] t(2) by (simp add: MAX_RW_def)
      have "radial_slot (addRadialWave p ?t) ((rwWrite s + j) mod MAX_RW)
              = radial_slot ?t ((rwWrite s + j) mod MAX_RW)"
        using ne by (rule addRadialWave_other)
      also have "\<dots> = radial_entry s (ps ! j)"
        using snoc.IH lt near by (simp add: MAX_RW_def)
      finally show ?thesis using lt by (simp add: nth_append)
    qed
  qed
qed







lemmas example_eval =
  addPlaneWave_def example_plane_def new_CompWaterPBR_def example_props_def Let_def
  MAX_PW_def MAX_RW_def addPWToUniforms_def calcDispersion_def upt_rec numeral_eq_Suc

lemma fold_frame:
  assumes "\<And>i u. g (F i u) = g u"
  shows "g (fold F xs u) = g u"
  by (induction xs arbitrary: u) (simp_all add: assms)

lemmas fold_frame_radial =
  fold_frame[where g = rw_center] fold_frame[where g = rw_k] fold_frame[where g = rw_omega]
  fold_frame[where g = rw_amp] fold_frame[where g = rw_decay] fold_frame[where g = rw_phase]

lemma addPWToUniforms_radial:
  "radial_wf (addPWToUniforms s) = radial_wf s"
  "rwWrite (addPWToUniforms s) = rwWrite s"
  by (simp_all add: addPWToUniforms_def Let_def radial_wf_def fold_frame_radial)

lemma radial_wf_planeWaves: "radial_wf (s\<lparr>planeWaves := x\<rparr>) = radial_wf s"
  by (simp add: radial_wf_def)

lemma addPlaneWave_radial:
  "radial_wf (addPlaneWave a s) = radial_wf s"
  "rwWrite (addPlaneWave a s) = rwWrite s"
  by (simp_all add: addPlaneWave_def Let_def addPWToUniforms_radial radial_wf_planeWaves
      split: prod.splits)

lemma new_radial_wf: "radial_wf (new_CompWaterPBR props)"
  by (simp add: radial_wf_def new_CompWaterPBR_def Let_def)

lemma new_wave_fields:
  "rwWrite (new_CompWaterPBR props) = 0"
  "planeWaves (new_CompWaterPBR props) = []"
  by (simp_all add: new_CompWaterPBR_def Let_def)

lemma example_full_fields:
  "length (planeWaves example_full) = 4"
  "rwWrite example_full = 0"
  "radial_wf example_full"
  by (simp_all add: example_full_def addPlaneWave_length addPlaneWave_radial new_radial_wf
      MAX_PW_def new_wave_fields)

lemma radial_gate:
  assumes "radial_wf s" "calc_k (r_wavelength p) = 0"
  shows "rw_amp (hmU (addRadialWave p s)) ! (rwWrite s mod MAX_RW) = 0"
  using addRadialWave_slot[OF assms(1), of p] assms(2)
  by (simp add: radial_slot_def radial_entry_def Let_def)



lemma GPGPU_upload_overflow:
  assumes "4 \<le> length ws"
  shows "gp_u (GPGPU_addPWToUniforms (s\<lparr>gp_planeWaves := ws @ [w]\<rparr>))
           = gp_u (GPGPU_addPWToUniforms (s\<lparr>gp_planeWaves := ws\<rparr>))"
proof -
  define up where "up = (\<lambda>(vs::gp_wave list) (u0::gp_uniforms).
     fold (\<lambda>i u. u\<lparr> gp_amp := (gp_amp u)[i := 0] \<rparr>) [min (length vs) 4..<4]
       (fold (\<lambda>i u. u\<lparr> gp_dir := (gp_dir u)[i := gw_dir (vs ! i)],
                       gp_k := (gp_k u)[i := gw_k (vs ! i)],
                       gp_omega := (gp_omega u)[i := gw_omega (vs ! i)],
                       gp_amp := (gp_amp u)[i := gw_amp (vs ! i)],
                       gp_phase := (gp_phase u)[i := gw_phase (vs ! i)] \<rparr>)
          [0..<min (length vs) 4] u0))"
  have unf: "gp_u (GPGPU_addPWToUniforms t) = up (gp_planeWaves t) (gp_u t)"
    for t :: GPGPUWaterPBR
    by (simp add: GPGPU_addPWToUniforms_def Let_def up_def)
  have n: "min (length (ws @ [w])) 4 = 4" "min (length ws) 4 = 4" using assms by simp_all
  have eq: "fold (\<lambda>i u. u\<lparr> gp_dir := (gp_dir u)[i := gw_dir ((ws @ [w]) ! i)],
                       gp_k := (gp_k u)[i := gw_k ((ws @ [w]) ! i)],
                       gp_omega := (gp_omega u)[i := gw_omega ((ws @ [w]) ! i)],
                       gp_amp := (gp_amp u)[i := gw_amp ((ws @ [w]) ! i)],
                       gp_phase := (gp_phase u)[i := gw_phase ((ws @ [w]) ! i)] \<rparr>) [0..<4] u0
        = fold (\<lambda>i u. u\<lparr> gp_dir := (gp_dir u)[i := gw_dir (ws ! i)],
                       gp_k := (gp_k u)[i := gw_k (ws ! i)],
                       gp_omega := (gp_omega u)[i := gw_omega (ws ! i)],
                       gp_amp := (gp_amp u)[i := gw_amp (ws ! i)],
                       gp_phase := (gp_phase u)[i := gw_phase (ws ! i)] \<rparr>) [0..<4] u0" for u0
  proof (rule fold_cong)
    fix i :: nat assume "i \<in> set [0..<4]"
    then have "(ws @ [w]) ! i = ws ! i" using assms by (simp add: nth_append)
    then show "(\<lambda>u. u\<lparr> gp_dir := (gp_dir u)[i := gw_dir ((ws @ [w]) ! i)],
                       gp_k := (gp_k u)[i := gw_k ((ws @ [w]) ! i)],
                       gp_omega := (gp_omega u)[i := gw_omega ((ws @ [w]) ! i)],
                       gp_amp := (gp_amp u)[i := gw_amp ((ws @ [w]) ! i)],
                       gp_phase := (gp_phase u)[i := gw_phase ((ws @ [w]) ! i)] \<rparr>)
        = (\<lambda>u. u\<lparr> gp_dir := (gp_dir u)[i := gw_dir (ws ! i)],
                       gp_k := (gp_k u)[i := gw_k (ws ! i)],
                       gp_omega := (gp_omega u)[i := gw_omega (ws ! i)],
                       gp_amp := (gp_amp u)[i := gw_amp (ws ! i)],
                       gp_phase := (gp_phase u)[i := gw_phase (ws ! i)] \<rparr>)"
      by simp
  qed simp_all
  have "up (ws @ [w]) u0 = up ws u0" for u0
    unfolding up_def n by (simp only: eq)
  then show ?thesis by (simp add: unf)
qed

lemma GPGPU_addPWToUniforms_waves:
  "gp_planeWaves (GPGPU_addPWToUniforms s) = gp_planeWaves s"
  by (simp add: GPGPU_addPWToUniforms_def Let_def)

lemma GPGPU_addPWToUniforms_cong:
  "gp_u (GPGPU_addPWToUniforms (s\<lparr>gp_planeWaves := gp_planeWaves s\<rparr>))
     = gp_u (GPGPU_addPWToUniforms s)"
  by simp

lemma GPGPU_addPlaneWave_overflow:
  assumes "4 \<le> length (gp_planeWaves s)"
  shows "gp_u (fst (GPGPU_addPlaneWave a s)) = gp_u (GPGPU_addPWToUniforms s)"
proof -
  obtain k om where d: "GPGPU_calcDispersion s
      (case ga_wavelength a of Undefined \<Rightarrow> Num 10 | w \<Rightarrow> w) (ga_speed a) (ga_omega a) = (k, om)"
    by (cases "GPGPU_calcDispersion s
      (case ga_wavelength a of Undefined \<Rightarrow> Num 10 | w \<Rightarrow> w) (ga_speed a) (ga_omega a)") auto
  have "gp_u (fst (GPGPU_addPlaneWave a s)) =
      gp_u (GPGPU_addPWToUniforms (s\<lparr>gp_planeWaves := gp_planeWaves s @
         [\<lparr> gw_dir = normalize2 (ga_dir a), gw_k = k, gw_omega = om, gw_amp = ga_amplitude a,
            gw_phase = ga_phase a \<rparr>]\<rparr>))"
    by (simp add: GPGPU_addPlaneWave_def Let_def d)
  also have "\<dots> = gp_u (GPGPU_addPWToUniforms (s\<lparr>gp_planeWaves := gp_planeWaves s\<rparr>))"
    using assms by (rule GPGPU_upload_overflow)
  finally show ?thesis by simp
qed

lemma GPGPU_addPlaneWave_length:
  "length (gp_planeWaves (fst (GPGPU_addPlaneWave a s))) = Suc (length (gp_planeWaves s))"
  by (simp add: GPGPU_addPlaneWave_def Let_def GPGPU_addPWToUniforms_waves split: prod.splits)

lemma GPGPU_addPlaneWave_id:
  "snd (GPGPU_addPlaneWave a s) = length (gp_planeWaves s)"
  by (simp add: GPGPU_addPlaneWave_def Let_def GPGPU_addPWToUniforms_waves split: prod.splits)

lemma example_gp_full_length: "length (gp_planeWaves example_gp_full) = 4"
  by (simp add: example_gp_full_def GPGPU_addPlaneWave_length new_GPGPUWaterPBR_def)

text \<open>
  Claim C4: both wave-source stores are ring buffers of capacity 4, and an add beyond
  the capacity overwrites the oldest slot. The plane store is not: after five
  \<open>addPlaneWave\<close> calls with the amplitudes 1 to 5 on a new component the amplitude
  uniforms are 1, 2, 3, 4. The fifth wave was dropped and the oldest slot still holds the
  first.
\<close>

theorem fifth_plane_wave_dropped:
  "pw_amp (hmU (fold addPlaneWave
      [example_plane (Num 12) 1, example_plane (Num 12) 2, example_plane (Num 12) 3,
       example_plane (Num 12) 4, example_plane (Num 12) 5]
      (new_CompWaterPBR example_props))) = [1, 2, 3, 4]"
  by (simp add: example_eval)

text \<open>
  Claim C4, amended. The radial store is a ring buffer of capacity 4: after any sequence
  \<open>ps\<close> of \<open>addRadialWave\<close> calls, each of the last four waves is in the slot its
  call wrote, \<open>(_rwWrite + j) mod 4\<close> for the \<open>j\<close>-th call, so a call beyond the
  capacity has overwritten the oldest slot. The plane store of \<open>CompWaterPBR\<close> holds
  at most four waves and an \<open>addPlaneWave\<close> on a full store changes nothing. The plane
  store of \<open>GPGPUWaterPBR\<close> grows by one wave at every call, and from the fifth wave on
  the call leaves in the uniforms what an upload of the waves stored before gives: the new
  wave does not reach the shader.
\<close>

theorem wave_store_policy:
  assumes "radial_wf s"
  shows "(\<forall>j<length ps. length ps - j \<le> MAX_RW \<longrightarrow>
            radial_slot (fold addRadialWave ps s) ((rwWrite s + j) mod MAX_RW)
              = radial_entry s (ps ! j)) \<and>
         (MAX_PW \<le> length (planeWaves s) \<longrightarrow> addPlaneWave a s = s) \<and>
         (4 \<le> length (gp_planeWaves g) \<longrightarrow>
            gp_u (fst (GPGPU_addPlaneWave b g)) = gp_u (GPGPU_addPWToUniforms g)) \<and>
         length (gp_planeWaves (fst (GPGPU_addPlaneWave b g))) = Suc (length (gp_planeWaves g))"
  using radial_ring[OF assms] addPlaneWave_full GPGPU_addPlaneWave_overflow
    GPGPU_addPlaneWave_length
  by blast

theorem wave_store_policy_witness:
  "radial_wf example_full \<and>
   radial_slot (fold addRadialWave
       [example_radial (Num 8) 1, example_radial (Num 8) 2, example_radial (Num 8) 3,
        example_radial (Num 8) 4, example_radial (Num 8) 5] example_full) 0
     = radial_entry example_full (example_radial (Num 8) 5) \<and>
   MAX_PW \<le> length (planeWaves example_full) \<and>
   addPlaneWave (example_plane (Num 12) 5) example_full = example_full \<and>
   4 \<le> length (gp_planeWaves example_gp_full) \<and>
   gp_u (fst (GPGPU_addPlaneWave (example_gp_plane Undefined 5) example_gp_full))
     = gp_u (GPGPU_addPWToUniforms example_gp_full)"
proof -
  let ?ps = "[example_radial (Num 8) 1, example_radial (Num 8) 2, example_radial (Num 8) 3,
        example_radial (Num 8) 4, example_radial (Num 8) 5]"
  have wf: "radial_wf example_full" by (rule example_full_fields)
  note t = wave_store_policy[OF wf, of ?ps "example_plane (Num 12) 5" example_gp_full
      "example_gp_plane Undefined 5"]
  have full: "MAX_PW \<le> length (planeWaves example_full)"
    by (simp add: example_full_fields MAX_PW_def)
  have gfull: "4 \<le> length (gp_planeWaves example_gp_full)"
    by (simp add: example_gp_full_length)
  have "radial_slot (fold addRadialWave ?ps example_full) ((rwWrite example_full + 4) mod MAX_RW)
      = radial_entry example_full (?ps ! 4)"
    by (rule t[THEN conjunct1, rule_format]) (simp_all add: MAX_RW_def)
  then have ring: "radial_slot (fold addRadialWave ?ps example_full) 0
      = radial_entry example_full (example_radial (Num 8) 5)"
    by (simp add: example_full_fields MAX_RW_def)
  have drop: "addPlaneWave (example_plane (Num 12) 5) example_full = example_full"
    using t[THEN conjunct2, THEN conjunct1] full by blast
  have keep: "gp_u (fst (GPGPU_addPlaneWave (example_gp_plane Undefined 5) example_gp_full))
     = gp_u (GPGPU_addPWToUniforms example_gp_full)"
    using t[THEN conjunct2, THEN conjunct2, THEN conjunct1] gfull by blast
  show ?thesis using wf ring full drop gfull keep by blast
qed

text \<open>
  Claim C5: a wave (plane or radial) whose wavenumber is 0, or whose frequency is not
  finite, is stored with amplitude 0.

  \<open>addRadialWave\<close> does so (\<open>radial_gate\<close>); \<open>addPlaneWave\<close> has no such
  gate. On a new component a plane wave of wavelength 0 and amplitude 1 is stored with
  \<open>k = 0\<close> and amplitude 1, where a radial wave of wavelength 0 and amplitude 1 is stored
  with amplitude 0 (\<open>degenerate_radial_wave_gated\<close>).
\<close>

theorem degenerate_plane_wave_not_gated:
  "pw_k (hmU (addPlaneWave (example_plane (Num 0) 1) (new_CompWaterPBR example_props))) ! 0 = 0 \<and>
   pw_amp (hmU (addPlaneWave (example_plane (Num 0) 1) (new_CompWaterPBR example_props))) ! 0 = 1"
proof -
  have "pw_k (hmU (addPlaneWave (example_plane (Num 0) 1) (new_CompWaterPBR example_props))) ! 0 = 0"
    by (simp add: example_eval calc_k_def)
  moreover have "pw_amp (hmU (addPlaneWave (example_plane (Num 0) 1)
      (new_CompWaterPBR example_props))) ! 0 = 1"
    by (simp add: example_eval)
  ultimately show ?thesis by blast
qed

text \<open>The radial wave of the same wavelength and amplitude, for comparison.\<close>

lemma degenerate_radial_wave_gated:
  "rw_k (hmU (addRadialWave (example_radial (Num 0) 1) (new_CompWaterPBR example_props))) ! 0 = 0 \<and>
   rw_amp (hmU (addRadialWave (example_radial (Num 0) 1) (new_CompWaterPBR example_props))) ! 0 = 0"
  by (simp add: addRadialWave_def example_radial_def new_CompWaterPBR_def Let_def MAX_RW_def
      calc_k_def)




section \<open>The splash kernel\<close>

lemma splash_primitive_deriv:
  assumes "R \<noteq> 0"
  shows "DERIV (splash_primitive R S) d :> 2 * pi * d * splash_impulse d R S"
proof -
  have "((\<lambda>d. 2 * pi * S * R\<^sup>2 *
          (exp (- 100 * (d / R)\<^sup>2) * ((d / R)\<^sup>2 / 4 - 1 / 400)))
        has_real_derivative 2 * pi * d * splash_impulse d R S) (at d)"
    using assms
    by (auto intro!: derivative_eq_intros
        simp: splash_impulse_def Let_def power2_eq_square field_simps)
  then show ?thesis
    unfolding splash_primitive_def[abs_def] by simp
qed

lemma splash_primitive_values:
  assumes "0 < R"
  shows "splash_primitive R S R - splash_primitive R S 0 =
           pi * R\<^sup>2 * S / 200 * (1 + 99 * exp (- 100))"
    and "splash_primitive R S (R / sqrt 50) - splash_primitive R S 0 =
           pi * R\<^sup>2 * S / 200 * (1 + exp (- 2))"
proof -
  show "splash_primitive R S R - splash_primitive R S 0 =
           pi * R\<^sup>2 * S / 200 * (1 + 99 * exp (- 100))"
    using assms by (simp add: splash_primitive_def field_simps)
  have "(R / sqrt 50 / R)\<^sup>2 = 1 / 50"
    using assms by (simp add: power2_eq_square field_simps)
  then show "splash_primitive R S (R / sqrt 50) - splash_primitive R S 0 =
           pi * R\<^sup>2 * S / 200 * (1 + exp (- 2))"
    using assms by (simp add: splash_primitive_def field_simps)
qed

text \<open>
  Claim C8: the splash kernel \<open>(1 - 50 r\<^sup>2) exp (-100 r\<^sup>2)\<close> times the strength, with
  \<open>r = d / R\<close>, is zero-mean: its integral over the affected region is about zero.

  It is not. For a radius \<open>R > 0\<close> and a strength \<open>S > 0\<close>, \<open>splash_primitive\<close> is
  an antiderivative of the radial integrand \<open>2\<pi> d * splash_impulse d R S\<close>; the integral
  over the affected disc \<open>d \<le> R\<close> is \<open>\<pi> R\<^sup>2 S / 200 * (1 + 99 exp (-100))\<close>, positive,
  and more than half (in fact 88 percent) of the integral over the disc
  \<open>d \<le> R / sqrt 50\<close> where the impulse is positive: the negative ring cancels an eighth
  of the positive centre.
\<close>

theorem splash_impulse_net_positive:
  assumes "0 < R" and "0 < S"
  shows "(\<forall>d. DERIV (splash_primitive R S) d :> 2 * pi * d * splash_impulse d R S) \<and>
         splash_primitive R S R - splash_primitive R S 0 =
           pi * R\<^sup>2 * S / 200 * (1 + 99 * exp (- 100)) \<and>
         splash_primitive R S (R / sqrt 50) - splash_primitive R S 0 =
           pi * R\<^sup>2 * S / 200 * (1 + exp (- 2)) \<and>
         (splash_primitive R S (R / sqrt 50) - splash_primitive R S 0) / 2
           \<le> splash_primitive R S R - splash_primitive R S 0 \<and>
         0 < splash_primitive R S R - splash_primitive R S 0"
proof -
  have R: "R \<noteq> 0" using assms(1) by simp
  have c: "0 < pi * R\<^sup>2 * S / 200" using assms by simp
  have e: "exp (- 2 :: real) \<le> 1" "0 < exp (- 100 :: real)" by simp_all
  have "(1 + exp (- 2 :: real)) / 2 \<le> 1" using e(1) by simp
  moreover have "(1::real) \<le> 1 + 99 * exp (- 100)" by simp
  ultimately have "(1 + exp (- 2 :: real)) / 2 \<le> 1 + 99 * exp (- 100)" by (rule order_trans)
  then have "pi * R\<^sup>2 * S / 200 * ((1 + exp (- 2)) / 2)
      \<le> pi * R\<^sup>2 * S / 200 * (1 + 99 * exp (- 100))"
    using c by (intro mult_left_mono) simp_all
  then have half: "(pi * R\<^sup>2 * S / 200 * (1 + exp (- 2))) / 2
      \<le> pi * R\<^sup>2 * S / 200 * (1 + 99 * exp (- 100))"
    by simp
  have "(0::real) < 1 + 99 * exp (- 100)"
    by (intro add_pos_pos mult_pos_pos) simp_all
  then have pos: "0 < pi * R\<^sup>2 * S / 200 * (1 + 99 * exp (- 100))"
    using c by (rule mult_pos_pos[rotated])
  note v = splash_primitive_values[OF assms(1), of S]
  have d: "\<forall>d. DERIV (splash_primitive R S) d :> 2 * pi * d * splash_impulse d R S"
    using splash_primitive_deriv[OF R] by blast
  have h: "(splash_primitive R S (R / sqrt 50) - splash_primitive R S 0) / 2
           \<le> splash_primitive R S R - splash_primitive R S 0"
    unfolding v by (rule half)
  have p: "0 < splash_primitive R S R - splash_primitive R S 0"
    unfolding v by (rule pos)
  show ?thesis using d v h p by blast
qed

theorem splash_impulse_net_positive_witness:
  "(0::real) < 5 \<and> (0::real) < 100 \<and>
   0 < splash_primitive 5 100 5 - splash_primitive 5 100 0 \<and>
   splash_primitive 5 100 5 - splash_primitive 5 100 0 =
     pi * 5\<^sup>2 * 100 / 200 * (1 + 99 * exp (- 100))"
  using splash_impulse_net_positive[of 5 100] by simp

end
